theory Spec2Isabelle
  imports Main "HOL-Library.Multiset" "HOL-Library.Sublist"
begin

section \<open>Strings as the TypeScript code uses them\<close>

text \<open>
  A JavaScript string is modelled as a \<^typ>\<open>string\<close>: a list of characters, each read as one
  code unit in the range U+0000 to U+00FF.  The whitespace class \<^verbatim>\<open>\s\<close> of a regular
  expression (and of \<^verbatim>\<open>trim\<close>) then holds TAB, LF, VT, FF, CR, SPACE and NBSP; the
  line terminators are LF and CR; the word class \<^verbatim>\<open>\w\<close> is \<^verbatim>\<open>[A-Za-z0-9_]\<close>.
\<close>

definition isWhitespace :: "char \<Rightarrow> bool" where
  "isWhitespace c =
     (c = CHR 0x09 \<or> c = CHR 0x0A \<or> c = CHR 0x0B \<or> c = CHR 0x0C \<or> c = CHR 0x0D
      \<or> c = CHR 0x20 \<or> c = CHR 0xA0)"

definition isLineTerminator :: "char \<Rightarrow> bool" where
  "isLineTerminator c = (c = CHR 0x0A \<or> c = CHR 0x0D)"

definition isDigit :: "char \<Rightarrow> bool" where
  "isDigit c = (let n = (of_char c :: nat) in 48 \<le> n \<and> n \<le> 57)"

definition isWordChar :: "char \<Rightarrow> bool" where
  "isWordChar c =
     (let n = (of_char c :: nat)
      in (48 \<le> n \<and> n \<le> 57) \<or> (65 \<le> n \<and> n \<le> 90) \<or> n = 95 \<or> (97 \<le> n \<and> n \<le> 122))"

text \<open>\<^verbatim>\<open>s.startsWith(p)\<close> and \<^verbatim>\<open>s.includes(p)\<close>.\<close>

fun startsWith :: "string \<Rightarrow> string \<Rightarrow> bool" where
  "startsWith s [] = True"
| "startsWith [] (p # ps) = False"
| "startsWith (c # cs) (p # ps) = (c = p \<and> startsWith cs ps)"

fun stringIncludes :: "string \<Rightarrow> string \<Rightarrow> bool" where
  "stringIncludes [] p = startsWith [] p"
| "stringIncludes (c # cs) p = (startsWith (c # cs) p \<or> stringIncludes cs p)"

text \<open>\<^verbatim>\<open>s.trimStart()\<close>, \<^verbatim>\<open>s.trimEnd()\<close> and \<^verbatim>\<open>s.trim()\<close>.\<close>

definition trimStart :: "string \<Rightarrow> string" where
  "trimStart s = dropWhile isWhitespace s"

definition trimEnd :: "string \<Rightarrow> string" where
  "trimEnd s = rev (dropWhile isWhitespace (rev s))"

definition trim :: "string \<Rightarrow> string" where
  "trim s = trimEnd (trimStart s)"

text \<open>
  \<^verbatim>\<open>content.split('\n')\<close>: the result is never empty (the empty string splits into one
  empty line), and \<^verbatim>\<open>lines.join('\n')\<close>.
\<close>

fun splitLines :: "string \<Rightarrow> string list" where
  "splitLines [] = [[]]"
| "splitLines (c # cs) =
     (if c = CHR 0x0A then [] # splitLines cs
      else (case splitLines cs of [] \<Rightarrow> [[c]] | l # ls \<Rightarrow> (c # l) # ls))"

fun joinLines :: "string list \<Rightarrow> string" where
  "joinLines [] = []"
| "joinLines [l] = l"
| "joinLines (l # m # ls) = l @ CHR 0x0A # joinLines (m # ls)"

text \<open>
  \<^verbatim>\<open>s.replace(/\s+/g, ' ')\<close>: every maximal run of whitespace becomes one space.
\<close>

function collapseWhitespace :: "string \<Rightarrow> string" where
  "collapseWhitespace [] = []"
| "collapseWhitespace (c # cs) =
     (if isWhitespace c then CHR 0x20 # collapseWhitespace (dropWhile isWhitespace cs)
      else c # collapseWhitespace cs)"
  by pat_completeness auto
termination
  by (relation "measure length") (auto intro: le_imp_less_Suc length_dropWhile_le)

section \<open>Data model\<close>

datatype ConflictType = CONTENT | WHITESPACE | IMPORT | STRUCTURAL | SEMANTIC

datatype ConflictComplexity = TRIVIAL | SIMPLE | MODERATE | COMPLEX

record ConflictMarkers =
  startMarker :: string
  separatorMarker :: string
  endMarker :: string

record ConflictHunk =
  startLine :: nat
  endLine :: nat
  baseContent :: string
  currentContent :: string
  incomingContent :: string
  conflictMarkers :: ConflictMarkers

record GitConflict =
  conflictFile :: string
  conflictType :: ConflictType
  hunks :: "ConflictHunk list"
  complexity :: ConflictComplexity
  explanation :: "string option"
  autoResolvable :: bool

section \<open>The hunk parser\<close>

text \<open>
  \<^verbatim>\<open>GitAnalyzer.parseConflictHunks\<close> walks the array \<^verbatim>\<open>lines\<close> with an index \<^verbatim>\<open>i\<close>.
  Each loop of the source is a function here over the index and the lines from that index
  on (\<^verbatim>\<open>drop i lines\<close>); an empty rest is \<^verbatim>\<open>i >= lines.length\<close>.

  \<^verbatim>\<open>collectCurrent\<close> is the loop of lines 322 to 336.  On a line that starts with
  \<^verbatim>\<open>|||||||\<close> it steps over that line, gathers the base lines up to the next line that
  starts with \<^verbatim>\<open>=======\<close> (or the end of the file), and then the \<^verbatim>\<open>i++\<close> of line
  335 steps over the line the inner loop stopped at.
\<close>

definition isSeparatorLine :: "string \<Rightarrow> bool" where
  "isSeparatorLine l = startsWith l ''=======''"

definition isEndLine :: "string \<Rightarrow> bool" where
  "isEndLine l = startsWith l ''>>>>>>>''"

function collectCurrent ::
  "nat \<Rightarrow> string list \<Rightarrow> string list \<Rightarrow> string \<Rightarrow> nat \<times> string list \<times> string list \<times> string" where
  "collectCurrent i [] cur base = (i, [], cur, base)"
| "collectCurrent i (l # ls) cur base =
     (if isSeparatorLine l then (i, l # ls, cur, base)
      else if startsWith l ''|||||||'' then
        (let baseLines = takeWhile (\<lambda>x. \<not> isSeparatorLine x) ls;
             afterBase = dropWhile (\<lambda>x. \<not> isSeparatorLine x) ls
         in collectCurrent (i + 1 + length baseLines + 1) (drop 1 afterBase) cur (joinLines baseLines))
      else collectCurrent (i + 1) ls (cur @ [l]) base)"
  by pat_completeness auto
termination
  by (relation "measure (\<lambda>(i, ls, cur, base). length ls)")
     (auto intro: le_imp_less_Suc order_trans [OF diff_le_self length_dropWhile_le])

lemma collectCurrent_rest_length:
  "length (fst (snd (collectCurrent i ls cur base))) \<le> length ls"
proof (induction i ls cur base rule: collectCurrent.induct)
  case (1 i cur base)
  then show ?case by simp
next
  case (2 i l ls cur base)
  let ?b = "takeWhile (\<lambda>x. \<not> isSeparatorLine x) ls"
  let ?r = "dropWhile (\<lambda>x. \<not> isSeparatorLine x) ls"
  have d: "length (drop 1 ?r) \<le> length ls"
    using length_dropWhile_le [of "\<lambda>x. \<not> isSeparatorLine x" ls] by simp
  show ?case
  proof (cases "isSeparatorLine l")
    case True
    then show ?thesis by simp
  next
    case sep: False
    show ?thesis
    proof (cases "startsWith l ''|||||||''")
      case True
      from "2.IH"(1) [OF sep True refl refl] d sep True show ?thesis
        by (simp add: Let_def)
    next
      case False
      from "2.IH"(2) [OF sep False] sep False show ?thesis by simp
    qed
  qed
qed

lemma collectCurrent_rest_le:
  "(j, rest, c, b) = collectCurrent i ls cur base \<Longrightarrow> length rest \<le> length ls"
  using collectCurrent_rest_length [of i ls cur base] by (metis fst_conv snd_conv)

lemma dropWhile_Cons_length:
  "e # r = dropWhile P xs \<Longrightarrow> length r < length xs"
  using length_dropWhile_le [of P xs] by (metis length_Cons less_eq_Suc_le)

text \<open>
  \<^verbatim>\<open>parseLoop\<close> is the outer loop of lines 307 to 368, \<^verbatim>\<open>i\<close> being the 0-based index of the
  first line of the rest.  A region is emitted only when the separator and the end marker
  are both found; otherwise the index has reached the end of the file and the loop stops.
\<close>

function parseLoop :: "nat \<Rightarrow> string list \<Rightarrow> ConflictHunk list" where
  "parseLoop i [] = []"
| "parseLoop i (l # ls) =
     (if startsWith l ''<<<<<<<'' then
        (case collectCurrent (i + 1) ls [] [] of
           (iSep, atSep, currentLines, base) \<Rightarrow>
             (case atSep of
                [] \<Rightarrow> []
              | sep # afterSep \<Rightarrow>
                  if isSeparatorLine sep then
                    (let incomingLines = takeWhile (\<lambda>x. \<not> isEndLine x) afterSep;
                         atEnd = dropWhile (\<lambda>x. \<not> isEndLine x) afterSep;
                         iEnd = iSep + 1 + length incomingLines
                     in case atEnd of
                          [] \<Rightarrow> []
                        | e # afterEnd \<Rightarrow>
                            \<lparr>startLine = i + 1,
                             endLine = iEnd + 1,
                             baseContent = base,
                             currentContent = joinLines currentLines,
                             incomingContent = joinLines incomingLines,
                             conflictMarkers =
                               \<lparr>startMarker = l, separatorMarker = sep, endMarker = e\<rparr>\<rparr>
                            # parseLoop (iEnd + 1) afterEnd)
                  else parseLoop (iSep + 1) afterSep))
      else parseLoop (i + 1) ls)"
  by pat_completeness auto
termination
  by (relation "measure (\<lambda>(i, ls). length ls)")
     (auto dest!: collectCurrent_rest_le dropWhile_Cons_length)

definition parseConflictHunks :: "string \<Rightarrow> ConflictHunk list" where
  "parseConflictHunks content = parseLoop 0 (splitLines content)"

text \<open>
  For the statement about files in the two-way style only: a region is the lines before
  it that start no conflict, its start marker, its current lines (none starts with
  \<^verbatim>\<open>=======\<close> or \<^verbatim>\<open>|||||||\<close>), its separator, its incoming lines (none starts with
  \<^verbatim>\<open>>>>>>>>\<close>) and its end marker.  \<^verbatim>\<open>expectedHunks\<close> lists, for such regions laid out
  from the 0-based line index \<^verbatim>\<open>i\<close> on, the hunk each of them should give.  These three
  definitions describe inputs; they are not part of the program.
\<close>

type_synonym twoWayRegion = "string list \<times> string \<times> string list \<times> string \<times> string list \<times> string"

definition wellFormedTwoWay :: "twoWayRegion \<Rightarrow> bool" where
  "wellFormedTwoWay r =
     (case r of (filler, startL, cur, sepL, inc, endL) \<Rightarrow>
        list_all (\<lambda>l. \<not> startsWith l ''<<<<<<<'') filler
        \<and> startsWith startL ''<<<<<<<''
        \<and> list_all (\<lambda>l. \<not> isSeparatorLine l \<and> \<not> startsWith l ''|||||||'') cur
        \<and> isSeparatorLine sepL
        \<and> list_all (\<lambda>l. \<not> isEndLine l) inc
        \<and> isEndLine endL)"

fun regionLines :: "twoWayRegion \<Rightarrow> string list" where
  "regionLines (filler, startL, cur, sepL, inc, endL) = filler @ [startL] @ cur @ [sepL] @ inc @ [endL]"

fun expectedHunks :: "nat \<Rightarrow> twoWayRegion list \<Rightarrow> ConflictHunk list" where
  "expectedHunks i [] = []"
| "expectedHunks i ((filler, startL, cur, sepL, inc, endL) # rest) =
     \<lparr>startLine = i + length filler + 1,
      endLine = i + length filler + length cur + length inc + 3,
      baseContent = [],
      currentContent = joinLines cur,
      incomingContent = joinLines inc,
      conflictMarkers = \<lparr>startMarker = startL, separatorMarker = sepL, endMarker = endL\<rparr>\<rparr>
     # expectedHunks (i + length filler + length cur + length inc + 3) rest"

section \<open>The classifier\<close>

text \<open>
  \<^verbatim>\<open>isAutoResolvable\<close> of the shared utilities: the set \<^verbatim>\<open>TRIVIAL_AUTO_TYPES\<close> holds
  WHITESPACE, IMPORT and STRUCTURAL.
\<close>

definition TRIVIAL_AUTO_TYPES :: "ConflictType list" where
  "TRIVIAL_AUTO_TYPES = [WHITESPACE, IMPORT, STRUCTURAL]"

definition isAutoResolvable :: "ConflictType \<Rightarrow> ConflictComplexity \<Rightarrow> bool" where
  "isAutoResolvable ty cx =
     (if cx = TRIVIAL then List.member TRIVIAL_AUTO_TYPES ty
      else if cx = SIMPLE \<and> (ty = WHITESPACE \<or> ty = IMPORT \<or> ty = STRUCTURAL) then True
      else False)"

definition generateConflictExplanation ::
  "ConflictType \<Rightarrow> string \<Rightarrow> string \<Rightarrow> string \<Rightarrow> string" where
  "generateConflictExplanation ty f currentText incomingText =
     (case ty of
        WHITESPACE \<Rightarrow> ''Whitespace differences in '' @ f @ ''. Usually safe to auto-resolve.''
      | IMPORT \<Rightarrow> ''Import statement conflicts in '' @ f @ ''. Different import order or style.''
      | STRUCTURAL \<Rightarrow>
          ''Structural changes in '' @ f @ ''. Code organization differs between branches.''
      | SEMANTIC \<Rightarrow>
          ''Semantic conflicts in '' @ f @ ''. Logic or behavior differs between branches.''
      | CONTENT \<Rightarrow> ''Content conflicts in '' @ f @ ''. Manual review recommended.'')"

text \<open>
  \<^verbatim>\<open>isWhitespaceOnly\<close> and \<^verbatim>\<open>hasComplexLogic\<close>.  A regular expression without anchors is
  tested at every position of the string: \<^verbatim>\<open>anySuffix P s\<close> holds when \<^verbatim>\<open>P\<close> holds of the
  text from some position on.  The five patterns of \<^verbatim>\<open>hasComplexLogic\<close> are
  \<^verbatim>\<open>\b(if|else|for|while|switch|try|catch)\b\<close>, \<^verbatim>\<open>function\s*\(\<close>, \<^verbatim>\<open>=>\s*{\<close>,
  \<^verbatim>\<open>class\s+\w+\<close> and \<^verbatim>\<open>async\s+\<close>.  The word boundary before a keyword needs the
  character before it, so that scan carries whether the previous character is a word
  character.
\<close>

definition isWhitespaceOnly :: "string \<Rightarrow> string \<Rightarrow> bool" where
  "isWhitespaceOnly content1 content2 =
     (trim (collapseWhitespace content1) = trim (collapseWhitespace content2))"

fun anySuffix :: "(string \<Rightarrow> bool) \<Rightarrow> string \<Rightarrow> bool" where
  "anySuffix P [] = P []"
| "anySuffix P (c # cs) = (P (c # cs) \<or> anySuffix P cs)"

definition keywordAt :: "string \<Rightarrow> string \<Rightarrow> bool" where
  "keywordAt s kw =
     (startsWith s kw \<and> (case drop (length kw) s of [] \<Rightarrow> True | c # cs \<Rightarrow> \<not> isWordChar c))"

fun hasControlKeyword :: "bool \<Rightarrow> string \<Rightarrow> bool" where
  "hasControlKeyword prevIsWord [] = False"
| "hasControlKeyword prevIsWord (c # cs) =
     (if \<not> prevIsWord \<and>
         list_ex (keywordAt (c # cs))
           [''if'', ''else'', ''for'', ''while'', ''switch'', ''try'', ''catch'']
      then True
      else hasControlKeyword (isWordChar c) cs)"

definition functionParenAt :: "string \<Rightarrow> bool" where
  "functionParenAt s =
     (startsWith s ''function'' \<and> startsWith (dropWhile isWhitespace (drop 8 s)) ''('')"

definition arrowBraceAt :: "string \<Rightarrow> bool" where
  "arrowBraceAt s = (startsWith s ''=>'' \<and> startsWith (dropWhile isWhitespace (drop 2 s)) ''{'')"

definition classNameAt :: "string \<Rightarrow> bool" where
  "classNameAt s =
     (startsWith s ''class'' \<and>
      (case drop 5 s of
         [] \<Rightarrow> False
       | c # cs \<Rightarrow>
           isWhitespace c \<and>
           (case dropWhile isWhitespace cs of [] \<Rightarrow> False | d # ds \<Rightarrow> isWordChar d)))"

definition asyncSpaceAt :: "string \<Rightarrow> bool" where
  "asyncSpaceAt s =
     (startsWith s ''async'' \<and> (case drop 5 s of [] \<Rightarrow> False | c # cs \<Rightarrow> isWhitespace c))"

definition hasComplexLogic :: "string \<Rightarrow> bool" where
  "hasComplexLogic content =
     (hasControlKeyword False content \<or> anySuffix functionParenAt content
      \<or> anySuffix arrowBraceAt content \<or> anySuffix classNameAt content
      \<or> anySuffix asyncSpaceAt content)"

definition analyzeConflictComplexity :: "string \<Rightarrow> string \<Rightarrow> ConflictComplexity" where
  "analyzeConflictComplexity currentText incomingText =
     (let currentLines = length (splitLines currentText);
          incomingLines = length (splitLines incomingText);
          totalLines = max currentLines incomingLines
      in if totalLines \<le> 1 \<or> isWhitespaceOnly currentText incomingText then TRIVIAL
         else if totalLines \<le> 5 \<and> \<not> hasComplexLogic currentText
                 \<and> \<not> hasComplexLogic incomingText then SIMPLE
         else if totalLines \<le> 20 then MODERATE
         else COMPLEX)"

text \<open>\<^verbatim>\<open>GitAnalyzer.determineOverallComplexity\<close>: the highest complexity among the hunks.\<close>

definition determineOverallComplexity :: "ConflictHunk list \<Rightarrow> ConflictComplexity" where
  "determineOverallComplexity hs =
     (if hs = [] then TRIVIAL
      else
        (let complexities =
               map (\<lambda>h. analyzeConflictComplexity (currentContent h) (incomingContent h)) hs
         in if List.member complexities COMPLEX then COMPLEX
            else if List.member complexities MODERATE then MODERATE
            else if List.member complexities SIMPLE then SIMPLE
            else TRIVIAL))"

text \<open>
  The line tests shared by the analyzer (\<^verbatim>\<open>isSimpleContentPattern\<close>) and the simple-content
  plugin (\<^verbatim>\<open>computeContentReplacement\<close>): both files define \<^verbatim>\<open>isSubsetLines\<close>,
  \<^verbatim>\<open>isLikelyList\<close> and \<^verbatim>\<open>isKeyValueBlock\<close> with the same text.

  \<^verbatim>\<open>bulletPattern\<close> is \<^verbatim>\<open>/^\s*(?:[-*+]|\d+\.)\s+/\<close> and \<^verbatim>\<open>kvPattern\<close> is
  \<^verbatim>\<open>/^\s*["']?[\w.-]+["']?\s*[:=]/\<close>.  In both, the character classes that follow one
  another are disjoint, so the greedy match is the only one and no backtracking is needed.
\<close>

definition isSubsetLines :: "string list \<Rightarrow> string list \<Rightarrow> bool" where
  "isSubsetLines source target =
     (let targetSet = filter (\<lambda>l. l \<noteq> []) (map trim target);
          meaningfulSource = filter (\<lambda>l. l \<noteq> []) (map trim source)
      in if length meaningfulSource = 0 then True
         else list_all (\<lambda>l. List.member targetSet l) meaningfulSource)"

definition bulletPattern :: "string \<Rightarrow> bool" where
  "bulletPattern s =
     (case dropWhile isWhitespace s of
        [] \<Rightarrow> False
      | c # cs \<Rightarrow>
          if c = CHR ''-'' \<or> c = CHR ''*'' \<or> c = CHR ''+''
          then (case cs of [] \<Rightarrow> False | d # ds \<Rightarrow> isWhitespace d)
          else if isDigit c
          then (case dropWhile isDigit cs of
                  [] \<Rightarrow> False
                | d # ds \<Rightarrow>
                    d = CHR ''.'' \<and> (case ds of [] \<Rightarrow> False | e # es \<Rightarrow> isWhitespace e))
          else False)"

fun isLikelyListLoop :: "bool \<Rightarrow> string list \<Rightarrow> bool" where
  "isLikelyListLoop hasEntries [] = hasEntries"
| "isLikelyListLoop hasEntries (line # rest) =
     (if trim line = [] then isLikelyListLoop hasEntries rest
      else if \<not> bulletPattern (trim line) then False
      else isLikelyListLoop True rest)"

definition isLikelyList :: "string list \<Rightarrow> bool" where
  "isLikelyList lines = isLikelyListLoop False lines"

definition isQuote :: "char \<Rightarrow> bool" where
  "isQuote c = (c = CHR 0x22 \<or> c = CHR 0x27)"

definition isKeyChar :: "char \<Rightarrow> bool" where
  "isKeyChar c = (isWordChar c \<or> c = CHR ''.'' \<or> c = CHR ''-'')"

definition dropOptionalQuote :: "string \<Rightarrow> string" where
  "dropOptionalQuote s = (case s of [] \<Rightarrow> [] | c # cs \<Rightarrow> if isQuote c then cs else c # cs)"

definition kvPattern :: "string \<Rightarrow> bool" where
  "kvPattern s =
     (let afterQuote = dropOptionalQuote (dropWhile isWhitespace s)
      in if takeWhile isKeyChar afterQuote = [] then False
         else
           (case dropWhile isWhitespace (dropOptionalQuote (dropWhile isKeyChar afterQuote)) of
              [] \<Rightarrow> False
            | c # cs \<Rightarrow> c = CHR '':'' \<or> c = CHR ''=''))"

fun isKeyValueBlockLoop :: "bool \<Rightarrow> string list \<Rightarrow> bool" where
  "isKeyValueBlockLoop hasEntries [] = hasEntries"
| "isKeyValueBlockLoop hasEntries (line # rest) =
     (if trim line = [] then isKeyValueBlockLoop hasEntries rest
      else if \<not> kvPattern (trim line) then False
      else isKeyValueBlockLoop True rest)"

definition isKeyValueBlock :: "string list \<Rightarrow> bool" where
  "isKeyValueBlock lines = isKeyValueBlockLoop False lines"

text \<open>\<^verbatim>\<open>GitAnalyzer.isSimpleContentPattern\<close> and \<^verbatim>\<open>canAutoResolveContent\<close>.\<close>

definition isSimpleContentPattern :: "ConflictHunk \<Rightarrow> bool" where
  "isSimpleContentPattern hunk =
     (let trimmedCurrent = trim (currentContent hunk);
          trimmedIncoming = trim (incomingContent hunk)
      in if trimmedCurrent = [] \<or> trimmedIncoming = [] then True
         else if trimmedCurrent = trimmedIncoming then True
         else if collapseWhitespace trimmedCurrent = collapseWhitespace trimmedIncoming then True
         else
           (let currentLines = splitLines (currentContent hunk);
                incomingLines = splitLines (incomingContent hunk)
            in if isSubsetLines currentLines incomingLines
                  \<or> isSubsetLines incomingLines currentLines then True
               else if isLikelyList currentLines \<and> isLikelyList incomingLines then True
               else if isKeyValueBlock currentLines \<and> isKeyValueBlock incomingLines then True
               else False))"

definition canAutoResolveContent :: "ConflictHunk list \<Rightarrow> bool" where
  "canAutoResolveContent hs = list_all isSimpleContentPattern hs"

text \<open>
  \<^verbatim>\<open>GitAnalyzer.detectConflictType\<close>.  Its whitespace test matches the file against
  \<^verbatim>\<open>/<<<<<<< .*?\n(.*?)\n=======\n(.*?)\n>>>>>>> .*?\n/gs\<close>.  Every quantifier of this
  pattern is lazy and, under the flag \<^verbatim>\<open>s\<close>, matches any character, so a match that begins
  at an occurrence of \<^verbatim>\<open><<<<<<< \<close> is found by going to the first line feed after it,
  then to the first \<^verbatim>\<open>\n=======\n\<close> after that, then to the first \<^verbatim>\<open>\n>>>>>>> \<close>, then to
  the first line feed; if one of these is missing there, it is missing after every later
  start too, and the search ends.  \<^verbatim>\<open>splitAtFirst\<close> cuts a text at the first occurrence of
  a literal; \<^verbatim>\<open>conflictBlocks\<close> returns the two captured groups of every match, which are
  what the second match, of each block against the same pattern, yields again.
\<close>

fun splitAtFirst :: "string \<Rightarrow> string \<Rightarrow> (string \<times> string) option" where
  "splitAtFirst pat [] = (if pat = [] then Some ([], []) else None)"
| "splitAtFirst pat (c # cs) =
     (if startsWith (c # cs) pat then Some ([], drop (length pat) (c # cs))
      else (case splitAtFirst pat cs of
              None \<Rightarrow> None
            | Some (preceding, following) \<Rightarrow> Some (c # preceding, following)))"

lemma splitAtFirst_length:
  "splitAtFirst pat s = Some (preceding, following) \<Longrightarrow> length following \<le> length s"
  by (induction s arbitrary: preceding) (auto split: if_splits option.splits)

lemma splitAtFirst_shorter:
  "splitAtFirst (p # ps) s = Some (preceding, following) \<Longrightarrow> length following < length s"
  by (induction s arbitrary: preceding) (auto split: if_splits option.splits)

function conflictBlocks :: "string \<Rightarrow> (string \<times> string) list" where
  "conflictBlocks s =
     (case splitAtFirst ''<<<<<<< '' s of
        None \<Rightarrow> []
      | Some (preceding, s1) \<Rightarrow>
          (case splitAtFirst [CHR 0x0A] s1 of
             None \<Rightarrow> []
           | Some (startRest, s2) \<Rightarrow>
               (case splitAtFirst (CHR 0x0A # ''======='' @ [CHR 0x0A]) s2 of
                  None \<Rightarrow> []
                | Some (current, s3) \<Rightarrow>
                    (case splitAtFirst (CHR 0x0A # ''>>>>>>> '') s3 of
                       None \<Rightarrow> []
                     | Some (incoming, s4) \<Rightarrow>
                         (case splitAtFirst [CHR 0x0A] s4 of
                            None \<Rightarrow> []
                          | Some (endRest, rest) \<Rightarrow>
                              (current, incoming) # conflictBlocks rest)))))"
  by pat_completeness auto
termination
proof (relation "measure length", goal_cases)
  case 1
  show ?case by simp
next
  case (2 s x2 preceding s1 x2a startRest s2 x2b current s3 x2c incoming s4 x2d endRest rest)
  have "length rest < length s4"
    using 2 splitAtFirst_shorter [of "CHR 0x0A" "[]" s4 endRest rest] by simp
  moreover have "length s4 \<le> length s3"
    using 2 splitAtFirst_length [of _ s3 incoming s4] by simp
  moreover have "length s3 \<le> length s2"
    using 2 splitAtFirst_length [of _ s2 current s3] by simp
  moreover have "length s2 \<le> length s1"
    using 2 splitAtFirst_length [of _ s1 startRest s2] by simp
  moreover have "length s1 \<le> length s"
    using 2 splitAtFirst_length [of _ s preceding s1] by simp
  ultimately show ?case by simp
qed

definition detectConflictType :: "string \<Rightarrow> string \<Rightarrow> ConflictType" where
  "detectConflictType filePath content =
     (if stringIncludes content ''import '' \<or> stringIncludes content ''require('' then IMPORT
      else
        (let blocks = conflictBlocks content;
             hasOnlyWhitespace =
               list_all (\<lambda>(current, incoming).
                   trim (collapseWhitespace current) = trim (collapseWhitespace incoming)) blocks
         in if blocks \<noteq> [] \<and> hasOnlyWhitespace then WHITESPACE
            else if stringIncludes content ''class '' \<or> stringIncludes content ''function ''
                    \<or> stringIncludes content ''interface '' then STRUCTURAL
            else CONTENT))"

text \<open>
  \<^verbatim>\<open>GitAnalyzer.analyzeFileConflict\<close>.  The file's text is an argument: the source reads it
  from disk first.
\<close>

definition analyzeFileConflict :: "string \<Rightarrow> string \<Rightarrow> GitConflict" where
  "analyzeFileConflict filePath content =
     (let hs = parseConflictHunks content;
          ty = detectConflictType filePath content;
          cx = determineOverallComplexity hs;
          baseAutoResolvable = isAutoResolvable ty cx;
          contentAutoResolvable =
            (if ty = CONTENT \<and> cx \<noteq> COMPLEX then canAutoResolveContent hs else False)
      in \<lparr>conflictFile = filePath,
          conflictType = ty,
          hunks = hs,
          complexity = cx,
          explanation =
            Some (generateConflictExplanation ty filePath
                    (joinLines (map currentContent hs)) (joinLines (map incomingContent hs))),
          autoResolvable = (baseAutoResolvable \<or> contentAutoResolvable)\<rparr>)"

section \<open>The text algorithms of the builtin plugins\<close>

text \<open>
  \<^verbatim>\<open>normalizeWhitespace\<close> of \<^verbatim>\<open>plugins/builtin.ts\<close> applies three replacements in turn:
  \<^verbatim>\<open>/\t/g\<close> by two spaces; \<^verbatim>\<open>/[ ]+$/gm\<close> by nothing, which removes every maximal run of
  spaces that stands before a line terminator or at the end of the text; and
  \<^verbatim>\<open>/\n{3,}/g\<close> by two line feeds, which shortens every maximal run of three or more
  line feeds to two.
\<close>

fun replaceTabs :: "string \<Rightarrow> string" where
  "replaceTabs [] = []"
| "replaceTabs (c # cs) =
     (if c = CHR 0x09 then CHR 0x20 # CHR 0x20 # replaceTabs cs else c # replaceTabs cs)"

function stripTrailingSpaces :: "string \<Rightarrow> string" where
  "stripTrailingSpaces [] = []"
| "stripTrailingSpaces (c # cs) =
     (if c = CHR 0x20 then
        (let run = c # takeWhile (\<lambda>x. x = CHR 0x20) cs;
             rest = dropWhile (\<lambda>x. x = CHR 0x20) cs
         in (case rest of
               [] \<Rightarrow> []
             | d # ds \<Rightarrow>
                 if isLineTerminator d then stripTrailingSpaces rest
                 else run @ stripTrailingSpaces rest))
      else c # stripTrailingSpaces cs)"
  by pat_completeness auto
termination
  by (relation "measure length") (auto intro: le_imp_less_Suc length_dropWhile_le)

function collapseBlankLines :: "string \<Rightarrow> string" where
  "collapseBlankLines [] = []"
| "collapseBlankLines (c # cs) =
     (if c = CHR 0x0A then
        (let run = c # takeWhile (\<lambda>x. x = CHR 0x0A) cs;
             rest = dropWhile (\<lambda>x. x = CHR 0x0A) cs
         in (if 3 \<le> length run then [CHR 0x0A, CHR 0x0A] else run) @ collapseBlankLines rest)
      else c # collapseBlankLines cs)"
  by pat_completeness auto
termination
  by (relation "measure length") (auto intro: le_imp_less_Suc length_dropWhile_le)

definition normalizeWhitespace :: "string \<Rightarrow> string" where
  "normalizeWhitespace text = collapseBlankLines (stripTrailingSpaces (replaceTabs text))"

text \<open>
  The import merge.  \<^verbatim>\<open>sortImports\<close> orders with \<^verbatim>\<open>String.prototype.localeCompare\<close>,
  whose result depends on the host's locale: it is a parameter here.  \<^verbatim>\<open>Array.sort\<close> is
  stable, and is modelled as an insertion sort under the comparator.
\<close>

definition extractImports :: "string \<Rightarrow> string list" where
  "extractImports text =
     concat (map (\<lambda>ln. let trimmed = trim ln
                       in if startsWith trimmed ''import ''
                             \<or> (startsWith trimmed ''const '' \<and> stringIncludes trimmed ''require('')
                          then [trimmed] else [])
                 (splitLines text))"

fun mergeImportsLoop :: "string list \<Rightarrow> string list \<Rightarrow> string list" where
  "mergeImportsLoop seen [] = []"
| "mergeImportsLoop seen (imp # rest) =
     (let normalized = trim (collapseWhitespace imp)
      in if List.member seen normalized then mergeImportsLoop seen rest
         else imp # mergeImportsLoop (normalized # seen) rest)"

definition mergeImports :: "string list \<Rightarrow> string list \<Rightarrow> string list" where
  "mergeImports current incoming = mergeImportsLoop [] (current @ incoming)"

fun insertSorted :: "('a \<Rightarrow> 'a \<Rightarrow> int) \<Rightarrow> 'a \<Rightarrow> 'a list \<Rightarrow> 'a list" where
  "insertSorted cmp x [] = [x]"
| "insertSorted cmp x (y # ys) = (if cmp x y < 0 then x # y # ys else y # insertSorted cmp x ys)"

definition arraySort :: "('a \<Rightarrow> 'a \<Rightarrow> int) \<Rightarrow> 'a list \<Rightarrow> 'a list" where
  "arraySort cmp xs = foldl (\<lambda>sorted x. insertSorted cmp x sorted) [] xs"

definition importCompare :: "(string \<Rightarrow> string \<Rightarrow> int) \<Rightarrow> string \<Rightarrow> string \<Rightarrow> int" where
  "importCompare localeCompare a b =
     (let aIsExternal = (\<not> stringIncludes a ''./'' \<and> \<not> stringIncludes a ''../'');
          bIsExternal = (\<not> stringIncludes b ''./'' \<and> \<not> stringIncludes b ''../'')
      in if aIsExternal \<and> \<not> bIsExternal then - 1
         else if \<not> aIsExternal \<and> bIsExternal then 1
         else localeCompare a b)"

definition sortImports :: "(string \<Rightarrow> string \<Rightarrow> int) \<Rightarrow> string list \<Rightarrow> string list" where
  "sortImports localeCompare imports = arraySort (importCompare localeCompare) imports"

text \<open>The list merge: blank lines are kept as they are, other lines once per trimmed text.\<close>

fun mergeListLoop :: "string list \<Rightarrow> string list \<Rightarrow> string list" where
  "mergeListLoop seen [] = []"
| "mergeListLoop seen (ln # rest) =
     (if trim ln = [] then ln # mergeListLoop seen rest
      else if List.member seen (trim ln) then mergeListLoop seen rest
      else trimEnd ln # mergeListLoop (trim ln # seen) rest)"

definition mergeListLines :: "string list \<Rightarrow> string list \<Rightarrow> string" where
  "mergeListLines currentLines incomingLines =
     joinLines (mergeListLoop [] (currentLines @ incomingLines))"

text \<open>
  The key-value merge.  \<^verbatim>\<open>parseKeyValueLine\<close> matches a line against
  \<^verbatim>\<open>/^(\s*["']?[\w.-]+["']?\s*[:=]\s*)(.*?)(\s*,?\s*)$/\<close>.  The first group is read
  greedily (its classes are disjoint, so no other reading matches).  The second group is
  lazy: it is the shortest text without a line terminator after which the rest of the line
  has the shape of the third group, white space with at most one comma in it.  The key is
  then found in the first group by \<^verbatim>\<open>/["']?([\w.-]+)["']?\s*[:=]\s*$/\<close>, tried from the
  leftmost position on.
\<close>

record KeyValueEntry =
  entryKey :: string
  entryPrefix :: string
  entryValue :: string
  entrySuffix :: string
  entryLine :: string
  entryRaw :: bool

definition takeOptionalQuote :: "string \<Rightarrow> string" where
  "takeOptionalQuote s = (case s of [] \<Rightarrow> [] | c # cs \<Rightarrow> if isQuote c then [c] else [])"

definition isSuffixPattern :: "string \<Rightarrow> bool" where
  "isSuffixPattern s =
     (case dropWhile isWhitespace s of
        [] \<Rightarrow> True
      | c # cs \<Rightarrow> c = CHR '','' \<and> dropWhile isWhitespace cs = [])"

fun splitValueSuffix :: "string \<Rightarrow> (string \<times> string) option" where
  "splitValueSuffix [] = Some ([], [])"
| "splitValueSuffix (c # cs) =
     (if isSuffixPattern (c # cs) then Some ([], c # cs)
      else if isLineTerminator c then None
      else (case splitValueSuffix cs of
              None \<Rightarrow> None
            | Some (v, sfx) \<Rightarrow> Some (c # v, sfx)))"

definition keyMatchAt :: "string \<Rightarrow> string option" where
  "keyMatchAt s =
     (let afterQuote = dropOptionalQuote s;
          k = takeWhile isKeyChar afterQuote
      in if k = [] then None
         else
           (case dropWhile isWhitespace (dropOptionalQuote (dropWhile isKeyChar afterQuote)) of
              [] \<Rightarrow> None
            | c # cs \<Rightarrow>
                if (c = CHR '':'' \<or> c = CHR ''='') \<and> dropWhile isWhitespace cs = []
                then Some k else None))"

fun keyMatch :: "string \<Rightarrow> string option" where
  "keyMatch [] = None"
| "keyMatch (c # cs) =
     (case keyMatchAt (c # cs) of Some k \<Rightarrow> Some k | None \<Rightarrow> keyMatch cs)"

definition parseKeyValueLine :: "string \<Rightarrow> KeyValueEntry option" where
  "parseKeyValueLine ln =
     (let ws0 = takeWhile isWhitespace ln;
          r0 = dropWhile isWhitespace ln;
          q1 = takeOptionalQuote r0;
          r1 = dropOptionalQuote r0;
          k = takeWhile isKeyChar r1;
          r2 = dropWhile isKeyChar r1;
          q2 = takeOptionalQuote r2;
          r3 = dropOptionalQuote r2;
          ws1 = takeWhile isWhitespace r3
      in if k = [] then None
         else
           (case dropWhile isWhitespace r3 of
              [] \<Rightarrow> None
            | c # r5 \<Rightarrow>
                if \<not> (c = CHR '':'' \<or> c = CHR ''='') then None
                else
                  (let pre = ws0 @ q1 @ k @ q2 @ ws1 @ [c] @ takeWhile isWhitespace r5
                   in case splitValueSuffix (dropWhile isWhitespace r5) of
                        None \<Rightarrow> None
                      | Some (v, sfx) \<Rightarrow>
                          (case keyMatch pre of
                             None \<Rightarrow> None
                           | Some ky \<Rightarrow>
                               Some \<lparr>entryKey = ky, entryPrefix = pre, entryValue = v,
                                     entrySuffix = sfx, entryLine = ln, entryRaw = False\<rparr>))))"

text \<open>
  \<^verbatim>\<open>mergeKeyValueLines\<close> keeps a map \<^verbatim>\<open>entries\<close> from keys to entries and the array
  \<^verbatim>\<open>order\<close> of the keys as first seen.  A blank line is stored under the key
  \<^verbatim>\<open>__blank__\<close> followed by the current length of \<^verbatim>\<open>order\<close> in decimal.
  \<^verbatim>\<open>processLine\<close> returns \<^verbatim>\<open>None\<close> where the source returns \<^verbatim>\<open>false\<close> (the merge then
  returns \<^verbatim>\<open>undefined\<close>).
\<close>

fun natToString :: "nat \<Rightarrow> string" where
  "natToString n =
     (if n < 10 then [char_of (48 + n)]
      else natToString (n div 10) @ [char_of (48 + n mod 10)])"

definition blankEntry :: "string \<Rightarrow> string \<Rightarrow> KeyValueEntry" where
  "blankEntry placeholder ln =
     \<lparr>entryKey = placeholder, entryPrefix = [], entryValue = [], entrySuffix = [],
      entryLine = ln, entryRaw = True\<rparr>"

definition processLine ::
  "(string \<rightharpoonup> KeyValueEntry) \<times> string list \<Rightarrow> string \<Rightarrow> bool
   \<Rightarrow> ((string \<rightharpoonup> KeyValueEntry) \<times> string list) option" where
  "processLine st ln preferIncoming =
     (case st of (entries, order) \<Rightarrow>
        if trim ln = [] then
          (let placeholder = ''__blank__'' @ natToString (length order)
           in case entries placeholder of
                None \<Rightarrow> Some (entries(placeholder \<mapsto> blankEntry placeholder ln), order @ [placeholder])
              | Some old \<Rightarrow>
                  if preferIncoming
                  then Some (entries(placeholder \<mapsto> blankEntry placeholder ln), order)
                  else Some (entries, order))
        else
          (case parseKeyValueLine ln of
             None \<Rightarrow> None
           | Some parsed \<Rightarrow>
               (case entries (entryKey parsed) of
                  None \<Rightarrow> Some (entries(entryKey parsed \<mapsto> parsed), order @ [entryKey parsed])
                | Some old \<Rightarrow>
                    if preferIncoming then Some (entries(entryKey parsed \<mapsto> parsed), order)
                    else Some (entries, order))))"

fun processLines ::
  "(string \<rightharpoonup> KeyValueEntry) \<times> string list \<Rightarrow> string list \<Rightarrow> bool
   \<Rightarrow> ((string \<rightharpoonup> KeyValueEntry) \<times> string list) option" where
  "processLines st [] preferIncoming = Some st"
| "processLines st (ln # rest) preferIncoming =
     (case processLine st ln preferIncoming of
        None \<Rightarrow> None
      | Some st' \<Rightarrow> processLines st' rest preferIncoming)"

definition endsWithComma :: "string \<Rightarrow> bool" where
  "endsWithComma s = (case rev s of [] \<Rightarrow> False | c # cs \<Rightarrow> c = CHR '','')"

text \<open>
  The three replacements on the suffix and the line: \<^verbatim>\<open>/\s*$/\<close> by a comma puts the comma
  in place of the trailing white space; \<^verbatim>\<open>/,\s*$/\<close> by nothing removes a comma that only
  white space follows, with that white space; \<^verbatim>\<open>/\s+$/\<close> by nothing removes trailing
  white space.
\<close>

definition appendComma :: "string \<Rightarrow> string" where
  "appendComma s = trimEnd s @ '',''"

definition removeTrailingComma :: "string \<Rightarrow> string" where
  "removeTrailingComma s = (if endsWithComma (trimEnd s) then butlast (trimEnd s) else s)"

definition renderEntry :: "bool \<Rightarrow> string option \<Rightarrow> string \<Rightarrow> KeyValueEntry option \<Rightarrow> string" where
  "renderEntry isJsonStyle lastStructuredKey ky entry =
     (case entry of
        None \<Rightarrow> []
      | Some e \<Rightarrow>
          if entryRaw e then entryLine e
          else
            (let suffix1 =
                   (if isJsonStyle \<and> Some ky \<noteq> lastStructuredKey
                       \<and> \<not> endsWithComma (trim (entrySuffix e))
                    then appendComma (entrySuffix e) else entrySuffix e);
                 suffix2 =
                   (if isJsonStyle \<and> Some ky = lastStructuredKey \<and> endsWithComma (trim suffix1)
                    then removeTrailingComma suffix1 else suffix1)
             in trimEnd (entryPrefix e @ entryValue e @ suffix2)))"

definition isStructured :: "KeyValueEntry option \<Rightarrow> bool" where
  "isStructured entry = (case entry of None \<Rightarrow> False | Some e \<Rightarrow> \<not> entryRaw e)"

definition hasQuotedPrefix :: "KeyValueEntry option \<Rightarrow> bool" where
  "hasQuotedPrefix entry =
     (case entry of None \<Rightarrow> False | Some e \<Rightarrow> List.member (entryPrefix e) (CHR 0x22))"

definition mergeKeyValueLines :: "string list \<Rightarrow> string list \<Rightarrow> string option" where
  "mergeKeyValueLines currentLines incomingLines =
     (case processLines (Map.empty, []) currentLines False of
        None \<Rightarrow> None
      | Some st1 \<Rightarrow>
          (case processLines st1 incomingLines True of
             None \<Rightarrow> None
           | Some (entries, order) \<Rightarrow>
               (let structuredKeys = filter (\<lambda>ky. isStructured (entries ky)) order;
                    lastStructuredKey =
                      (if structuredKeys = [] then None else Some (last structuredKeys));
                    isJsonStyle = list_ex (\<lambda>ky. hasQuotedPrefix (entries ky)) structuredKeys
                in Some (joinLines
                     (map (\<lambda>ky. renderEntry isJsonStyle lastStructuredKey ky (entries ky)) order)))))"

text \<open>
  \<^verbatim>\<open>computeContentReplacement\<close>: \<^verbatim>\<open>hunkReplacement\<close> is its body for the hunk found at the
  index; an index outside the array makes \<^verbatim>\<open>hunk\<close> undefined and the first property read
  throws a \<^verbatim>\<open>TypeError\<close>.
\<close>

datatype error = Error string | TypeError string | ENOENT string | EACCES string | GitError string

definition hunkReplacement :: "ConflictHunk \<Rightarrow> string option" where
  "hunkReplacement hunk =
     (let trimmedCurrent = trim (currentContent hunk);
          trimmedIncoming = trim (incomingContent hunk)
      in if trimmedCurrent = [] \<and> trimmedIncoming = [] then Some []
         else if trimmedCurrent = [] then Some (incomingContent hunk)
         else if trimmedIncoming = [] then Some (currentContent hunk)
         else if trimmedCurrent = trimmedIncoming then Some (currentContent hunk)
         else if normalizeWhitespace trimmedCurrent = normalizeWhitespace trimmedIncoming
         then Some (normalizeWhitespace (currentContent hunk))
         else
           (let currentLines = splitLines (currentContent hunk);
                incomingLines = splitLines (incomingContent hunk)
            in if isSubsetLines currentLines incomingLines then Some (joinLines incomingLines)
               else if isSubsetLines incomingLines currentLines then Some (joinLines currentLines)
               else if isLikelyList currentLines \<and> isLikelyList incomingLines
               then Some (mergeListLines currentLines incomingLines)
               else if isKeyValueBlock currentLines \<and> isKeyValueBlock incomingLines
               then mergeKeyValueLines currentLines incomingLines
               else None))"

definition computeContentReplacement :: "GitConflict \<Rightarrow> nat \<Rightarrow> error + string option" where
  "computeContentReplacement conflict hunkIndex =
     (if hunkIndex < length (hunks conflict)
      then Inr (hunkReplacement (hunks conflict ! hunkIndex))
      else Inl (TypeError ''Cannot read properties of undefined (reading 'currentContent')''))"

section \<open>Replacing a conflict region\<close>

text \<open>
  Both the plugins (\<^verbatim>\<open>replaceConflictBlocks\<close>) and the fallback replace, for each hunk, the
  first match of the regular expression built from the hunk's markers,
  \<^verbatim>\<open>escapeRegExp(start) + '[\s\S]*?' + escapeRegExp(end)\<close> with flag \<^verbatim>\<open>s\<close>.  As every
  special character of the markers is escaped, both markers match literally.  The match is
  found at the leftmost position where the start marker stands and the end marker occurs
  later; being lazy, it ends with the first such occurrence of the end marker.

  \<^verbatim>\<open>String.prototype.replace\<close> with a string as replacement expands the patterns
  \<^verbatim>\<open>$$\<close>, \<^verbatim>\<open>$&\<close>, \<^verbatim>\<open>$`\<close> and \<^verbatim>\<open>$'\<close> in it (the expression has no capture groups, so
  \<^verbatim>\<open>$1\<close> and the like stay as they are).
\<close>

fun lazyUntil :: "string \<Rightarrow> string \<Rightarrow> (string \<times> string) option" where
  "lazyUntil endM [] = (if endM = [] then Some ([], []) else None)"
| "lazyUntil endM (c # cs) =
     (if startsWith (c # cs) endM then Some (endM, drop (length endM) (c # cs))
      else (case lazyUntil endM cs of
              None \<Rightarrow> None
            | Some (matched, rest) \<Rightarrow> Some (c # matched, rest)))"

definition matchSpanAt :: "string \<Rightarrow> string \<Rightarrow> string \<Rightarrow> (string \<times> string) option" where
  "matchSpanAt startM endM s =
     (if startsWith s startM
      then (case lazyUntil endM (drop (length startM) s) of
              None \<Rightarrow> None
            | Some (matched, rest) \<Rightarrow> Some (startM @ matched, rest))
      else None)"

fun findSpan :: "string \<Rightarrow> string \<Rightarrow> string \<Rightarrow> string \<Rightarrow> (string \<times> string \<times> string) option" where
  "findSpan startM endM preceding [] =
     (case matchSpanAt startM endM [] of
        None \<Rightarrow> None
      | Some (matched, rest) \<Rightarrow> Some (preceding, matched, rest))"
| "findSpan startM endM preceding (c # cs) =
     (case matchSpanAt startM endM (c # cs) of
        None \<Rightarrow> findSpan startM endM (preceding @ [c]) cs
      | Some (matched, rest) \<Rightarrow> Some (preceding, matched, rest))"

fun getSubstitution :: "string \<Rightarrow> string \<Rightarrow> string \<Rightarrow> string \<Rightarrow> string" where
  "getSubstitution matched preceding following [] = []"
| "getSubstitution matched preceding following [c] = [c]"
| "getSubstitution matched preceding following (c # d # cs) =
     (if c = CHR ''$'' \<and> d = CHR ''$'' then CHR ''$'' # getSubstitution matched preceding following cs
      else if c = CHR ''$'' \<and> d = CHR ''&'' then matched @ getSubstitution matched preceding following cs
      else if c = CHR ''$'' \<and> d = CHR 0x60 then preceding @ getSubstitution matched preceding following cs
      else if c = CHR ''$'' \<and> d = CHR 0x27 then following @ getSubstitution matched preceding following cs
      else c # getSubstitution matched preceding following (d # cs))"

definition replaceConflictSpan :: "string \<Rightarrow> string \<Rightarrow> string \<Rightarrow> string \<Rightarrow> string" where
  "replaceConflictSpan text startM endM replacement =
     (case findSpan startM endM [] text of
        None \<Rightarrow> text
      | Some (preceding, matched, following) \<Rightarrow>
          preceding @ getSubstitution matched preceding following replacement @ following)"

section \<open>Plugins and the registry\<close>

text \<open>
  The resolver names a file by \<^verbatim>\<open>path.join(this.repoPath, filePath)\<close>.  On a POSIX system
  \<^verbatim>\<open>path.join\<close> puts a slash between its arguments that are not empty and normalizes the
  result: empty segments and \<^verbatim>\<open>.\<close> segments are dropped, a \<^verbatim>\<open>..\<close> segment removes the
  segment before it (at the root of an absolute path it is dropped, at the start of a
  relative path it is kept), and a trailing slash is kept.
\<close>

fun splitOn :: "char \<Rightarrow> string \<Rightarrow> string list" where
  "splitOn sep [] = [[]]"
| "splitOn sep (c # cs) =
     (if c = sep then [] # splitOn sep cs
      else (case splitOn sep cs of [] \<Rightarrow> [[c]] | l # ls \<Rightarrow> (c # l) # ls))"

fun joinWith :: "string \<Rightarrow> string list \<Rightarrow> string" where
  "joinWith sep [] = []"
| "joinWith sep [l] = l"
| "joinWith sep (l # m # ls) = l @ sep @ joinWith sep (m # ls)"

fun normalizeSegments :: "bool \<Rightarrow> string list \<Rightarrow> string list \<Rightarrow> string list" where
  "normalizeSegments allowAboveRoot res [] = res"
| "normalizeSegments allowAboveRoot res (segment # rest) =
     (if segment = [] \<or> segment = ''.'' then normalizeSegments allowAboveRoot res rest
      else if segment = ''..'' then
        (if res \<noteq> [] \<and> last res \<noteq> ''..''
         then normalizeSegments allowAboveRoot (butlast res) rest
         else if allowAboveRoot then normalizeSegments allowAboveRoot (res @ [''..'']) rest
         else normalizeSegments allowAboveRoot res rest)
      else normalizeSegments allowAboveRoot (res @ [segment]) rest)"

definition normalizeString :: "string \<Rightarrow> bool \<Rightarrow> string" where
  "normalizeString path allowAboveRoot =
     joinWith ''/'' (normalizeSegments allowAboveRoot [] (splitOn CHR ''/'' path))"

definition pathNormalize :: "string \<Rightarrow> string" where
  "pathNormalize path =
     (if path = [] then ''.''
      else
        (let isAbsolute = (hd path = CHR ''/'');
             trailingSeparator = (last path = CHR ''/'');
             normalized = normalizeString path (\<not> isAbsolute)
         in if normalized = []
            then (if isAbsolute then ''/'' else if trailingSeparator then ''./'' else ''.'')
            else
              (let withSeparator = (if trailingSeparator then normalized @ ''/'' else normalized)
               in if isAbsolute then ''/'' @ withSeparator else withSeparator)))"

definition pathJoin :: "string \<Rightarrow> string \<Rightarrow> string" where
  "pathJoin a b =
     (let joined = (if a = [] then b else if b = [] then a else a @ ''/'' @ b)
      in if joined = [] then ''.'' else pathNormalize joined)"

text \<open>
  The state outside the program is the working tree, a map from the paths handed to
  \<^verbatim>\<open>fs\<close> to the contents of the files (two normalized paths that differ name two files:
  no links, and relative paths are read from one working directory), which paths can be
  written, and the files staged in the index.  \<^verbatim>\<open>fs.readFile\<close> of a missing file and
  \<^verbatim>\<open>fs.writeFile\<close> of a file that is not writable throw an error that names the path.
\<close>

record FileSystem =
  fileContents :: "string \<rightharpoonup> string"
  writable :: "string \<Rightarrow> bool"
  stagedFiles :: "string list"

definition fsReadFile :: "FileSystem \<Rightarrow> string \<Rightarrow> error + string" where
  "fsReadFile fs fullPath =
     (case fileContents fs fullPath of None \<Rightarrow> Inl (ENOENT fullPath) | Some text \<Rightarrow> Inr text)"

definition fsWriteFile :: "FileSystem \<Rightarrow> string \<Rightarrow> string \<Rightarrow> error + FileSystem" where
  "fsWriteFile fs fullPath text =
     (if writable fs fullPath then Inr (fs\<lparr>fileContents := (fileContents fs)(fullPath \<mapsto> text)\<rparr>)
      else Inl (EACCES fullPath))"

definition errorToString :: "error \<Rightarrow> string" where
  "errorToString e =
     (case e of
        Error msg \<Rightarrow> ''Error: '' @ msg
      | TypeError msg \<Rightarrow> ''TypeError: '' @ msg
      | ENOENT path \<Rightarrow> ''Error: ENOENT: no such file or directory, open '' @ [CHR 0x27] @ path @ [CHR 0x27]
      | EACCES path \<Rightarrow> ''Error: EACCES: permission denied, open '' @ [CHR 0x27] @ path @ [CHR 0x27]
      | GitError msg \<Rightarrow> ''Error: '' @ msg)"

text \<open>
  A plugin is a record of its name, its optional priority and its two operations.  A
  plugin's \<^verbatim>\<open>resolve\<close> returns a resolution, \<^verbatim>\<open>null\<close> (\<^verbatim>\<open>None\<close>: it declines) or throws
  (\<^verbatim>\<open>Inl\<close>); it reads files through the context only, by their names in the repository.
\<close>

record PluginResolution =
  resolutionContent :: string
  resolutionNotes :: "string list option"

record ConflictResolutionContext =
  repoPath :: string
  readFile :: "string \<Rightarrow> error + string"

record ConflictResolutionPlugin =
  pluginName :: string
  priority :: "int option"
  supports :: "GitConflict \<Rightarrow> bool"
  resolve :: "GitConflict \<Rightarrow> ConflictResolutionContext \<Rightarrow> error + PluginResolution option"

text \<open>
  The registry is a JavaScript \<^verbatim>\<open>Map\<close> from names to plugins: it keeps its keys in the
  order of their first insertion, and setting a key that is present replaces the value in
  place.  \<^verbatim>\<open>getConflictResolutionPlugins\<close> sorts the values with the comparator
  \<^verbatim>\<open>(a.priority ?? 100) - (b.priority ?? 100)\<close>.
\<close>

fun mapSet :: "('k \<times> 'v) list \<Rightarrow> 'k \<Rightarrow> 'v \<Rightarrow> ('k \<times> 'v) list" where
  "mapSet [] k v = [(k, v)]"
| "mapSet ((k', v') # rest) k v = (if k' = k then (k, v) # rest else (k', v') # mapSet rest k v)"

definition registerConflictResolutionPlugin ::
  "(string \<times> ConflictResolutionPlugin) list \<Rightarrow> ConflictResolutionPlugin
   \<Rightarrow> (string \<times> ConflictResolutionPlugin) list" where
  "registerConflictResolutionPlugin registry plugin = mapSet registry (pluginName plugin) plugin"

definition priorityOrDefault :: "ConflictResolutionPlugin \<Rightarrow> int" where
  "priorityOrDefault p = (case priority p of None \<Rightarrow> 100 | Some n \<Rightarrow> n)"

definition getConflictResolutionPlugins ::
  "(string \<times> ConflictResolutionPlugin) list \<Rightarrow> ConflictResolutionPlugin list" where
  "getConflictResolutionPlugins registry =
     arraySort (\<lambda>a b. priorityOrDefault a - priorityOrDefault b) (map snd registry)"

section \<open>The builtin plugins\<close>

text \<open>
  \<^verbatim>\<open>replaceConflictBlocks\<close> reads the conflict's file and replaces one region per hunk, in
  order; the replacer is called with the hunk's index and may throw.  The loop also
  returns the replacements it was given, which the simple-content plugin collects in its
  array \<^verbatim>\<open>replacements\<close>.
\<close>

fun replaceBlocksLoop ::
  "(nat \<Rightarrow> error + string) \<Rightarrow> ConflictHunk list \<Rightarrow> nat \<Rightarrow> string \<times> string list
   \<Rightarrow> error + string \<times> string list" where
  "replaceBlocksLoop replacer [] index acc = Inr acc"
| "replaceBlocksLoop replacer (hunk # rest) index acc =
     (case replacer index of
        Inl e \<Rightarrow> Inl e
      | Inr replacement \<Rightarrow>
          replaceBlocksLoop replacer rest (index + 1)
            (replaceConflictSpan (fst acc) (startMarker (conflictMarkers hunk))
               (endMarker (conflictMarkers hunk)) replacement,
             snd acc @ [replacement]))"

definition replaceConflictBlocks ::
  "GitConflict \<Rightarrow> ConflictResolutionContext \<Rightarrow> (nat \<Rightarrow> error + string)
   \<Rightarrow> error + string \<times> string list" where
  "replaceConflictBlocks conflict context replacer =
     (case readFile context (conflictFile conflict) of
        Inl e \<Rightarrow> Inl e
      | Inr text \<Rightarrow> replaceBlocksLoop replacer (hunks conflict) 0 (text, []))"

definition hunkAt :: "GitConflict \<Rightarrow> nat \<Rightarrow> error + ConflictHunk" where
  "hunkAt conflict index =
     (if index < length (hunks conflict) then Inr (hunks conflict ! index)
      else Inl (TypeError ''Cannot read properties of undefined''))"

definition whitespacePlugin :: ConflictResolutionPlugin where
  "whitespacePlugin =
     \<lparr>pluginName = ''whitespace-normalizer'',
      priority = Some 10,
      supports = (\<lambda>conflict. conflictType conflict = WHITESPACE),
      resolve = (\<lambda>conflict context.
        case replaceConflictBlocks conflict context
               (\<lambda>index. case hunkAt conflict index of
                            Inl e \<Rightarrow> Inl e
                          | Inr hunk \<Rightarrow> Inr (normalizeWhitespace (incomingContent hunk))) of
          Inl e \<Rightarrow> Inl e
        | Inr (resolvedContent, replacements) \<Rightarrow>
            Inr (Some \<lparr>resolutionContent = resolvedContent,
                       resolutionNotes = Some [''Normalized whitespace differences'']\<rparr>))\<rparr>"

definition importPlugin :: "(string \<Rightarrow> string \<Rightarrow> int) \<Rightarrow> ConflictResolutionPlugin" where
  "importPlugin localeCompare =
     \<lparr>pluginName = ''import-merge'',
      priority = Some 20,
      supports = (\<lambda>conflict. conflictType conflict = IMPORT),
      resolve = (\<lambda>conflict context.
        case replaceConflictBlocks conflict context
               (\<lambda>index. case hunkAt conflict index of
                            Inl e \<Rightarrow> Inl e
                          | Inr hunk \<Rightarrow>
                              Inr (joinLines
                                     (sortImports localeCompare
                                        (mergeImports (extractImports (currentContent hunk))
                                           (extractImports (incomingContent hunk)))))) of
          Inl e \<Rightarrow> Inl e
        | Inr (resolvedContent, replacements) \<Rightarrow>
            Inr (Some \<lparr>resolutionContent = resolvedContent,
                       resolutionNotes = Some [''Merged and sorted import statements'']\<rparr>))\<rparr>"

definition simpleContentReplacer :: "GitConflict \<Rightarrow> nat \<Rightarrow> error + string" where
  "simpleContentReplacer conflict index =
     (case computeContentReplacement conflict index of
        Inl e \<Rightarrow> Inl e
      | Inr None \<Rightarrow> Inl (Error ''Simple content plugin could not compute replacement'')
      | Inr (Some replacement) \<Rightarrow> Inr replacement)"

definition simpleContentSupports :: "GitConflict \<Rightarrow> bool" where
  "simpleContentSupports conflict =
     (if conflictType conflict \<noteq> CONTENT then False
      else if complexity conflict = COMPLEX then False
      else list_all
             (\<lambda>index. case computeContentReplacement conflict index of
                         Inr (Some replacement) \<Rightarrow> True
                       | Inr None \<Rightarrow> False
                       | Inl e \<Rightarrow> False)
             [0 ..< length (hunks conflict)])"

definition simpleContentPlugin :: ConflictResolutionPlugin where
  "simpleContentPlugin =
     \<lparr>pluginName = ''simple-content-merge'',
      priority = Some 30,
      supports = simpleContentSupports,
      resolve = (\<lambda>conflict context.
        case replaceConflictBlocks conflict context (simpleContentReplacer conflict) of
          Inl e \<Rightarrow> Inl e
        | Inr (resolvedContent, replacements) \<Rightarrow>
            Inr (Some \<lparr>resolutionContent = resolvedContent,
                       resolutionNotes =
                         Some (if length (hunks conflict) = length replacements
                               then [''Merged compatible content blocks''] else [])\<rparr>))\<rparr>"

definition builtinPlugins :: "(string \<Rightarrow> string \<Rightarrow> int) \<Rightarrow> ConflictResolutionPlugin list" where
  "builtinPlugins localeCompare = [whitespacePlugin, importPlugin localeCompare, simpleContentPlugin]"

text \<open>
  \<^verbatim>\<open>ensureBuiltinPluginsRegistered\<close>, run by the resolver's constructor: the registry once
  the builtin plugins are registered in an empty registry.
\<close>

definition builtinRegistry ::
  "(string \<Rightarrow> string \<Rightarrow> int) \<Rightarrow> (string \<times> ConflictResolutionPlugin) list" where
  "builtinRegistry localeCompare =
     foldl registerConflictResolutionPlugin [] (builtinPlugins localeCompare)"

section \<open>The resolver\<close>

datatype FallbackStrategy = Incoming | Current | Both | NoFallback

definition strategyName :: "FallbackStrategy \<Rightarrow> string" where
  "strategyName s =
     (case s of Incoming \<Rightarrow> ''incoming'' | Current \<Rightarrow> ''current'' | Both \<Rightarrow> ''both''
      | NoFallback \<Rightarrow> ''none'')"

record ResolvedBy =
  resolvedFile :: string
  resolvedPlugin :: string
  resolvedNotes :: "string list option"

record ResolutionResult =
  success :: bool
  resolvedFiles :: "string list"
  failedFiles :: "string list"
  errors :: "string list"
  fallbackApplied :: "(string \<times> FallbackStrategy) list"
  warnings :: "string list"
  resultNotes :: "string list"
  resolvedBy :: "ResolvedBy list"

record PluginOutcome =
  outcomeContent :: string
  outcomePlugin :: ConflictResolutionPlugin
  outcomeNotes :: "string list option"

text \<open>\<^verbatim>\<open>ConflictResolver.runPlugins\<close>.\<close>

fun runPlugins ::
  "GitConflict \<Rightarrow> ConflictResolutionPlugin list \<Rightarrow> ConflictResolutionContext
   \<Rightarrow> error + PluginOutcome option" where
  "runPlugins conflict [] context = Inr None"
| "runPlugins conflict (plugin # rest) context =
     (if \<not> supports plugin conflict then runPlugins conflict rest context
      else (case resolve plugin conflict context of
              Inl e \<Rightarrow> Inl e
            | Inr None \<Rightarrow> runPlugins conflict rest context
            | Inr (Some resolution) \<Rightarrow>
                Inr (Some \<lparr>outcomeContent = resolutionContent resolution,
                           outcomePlugin = plugin,
                           outcomeNotes = resolutionNotes resolution\<rparr>)))"

text \<open>
  \<^verbatim>\<open>ConflictResolver.readFile\<close> (the name \<^verbatim>\<open>readFile\<close> is the field of the context) and
  \<^verbatim>\<open>createContext\<close>, whose \<^verbatim>\<open>readFile\<close> is the resolver's.
\<close>

definition resolverReadFile :: "string \<Rightarrow> FileSystem \<Rightarrow> string \<Rightarrow> error + string" where
  "resolverReadFile repo fs filePath = fsReadFile fs (pathJoin repo filePath)"

definition createContext :: "string \<Rightarrow> FileSystem \<Rightarrow> ConflictResolutionContext" where
  "createContext repo fs = \<lparr>repoPath = repo, readFile = resolverReadFile repo fs\<rparr>"

text \<open>\<^verbatim>\<open>combineBothVersions\<close> and \<^verbatim>\<open>applyFallbackStrategy\<close>.\<close>

definition pushSegment :: "string list \<times> string list \<Rightarrow> string \<Rightarrow> string list \<times> string list" where
  "pushSegment st segment =
     (case st of (segments, seen) \<Rightarrow>
        if trim segment = [] then (segments, seen)
        else
          (let normalized = trim (collapseWhitespace segment)
           in if List.member seen normalized then (segments, seen)
              else (segments @ [trimEnd segment], normalized # seen)))"

definition combineBothVersions :: "ConflictHunk \<Rightarrow> string" where
  "combineBothVersions hunk =
     (let segments =
            fst (pushSegment (pushSegment ([], []) (currentContent hunk)) (incomingContent hunk))
      in if length segments = 0 then [] else joinLines segments)"

fun fallbackLoop :: "FallbackStrategy \<Rightarrow> ConflictHunk list \<Rightarrow> string \<Rightarrow> string option" where
  "fallbackLoop strategy [] resolvedContent = Some resolvedContent"
| "fallbackLoop strategy (hunk # rest) resolvedContent =
     (case (case strategy of
              Incoming \<Rightarrow> Some (incomingContent hunk)
            | Current \<Rightarrow> Some (currentContent hunk)
            | Both \<Rightarrow> Some (combineBothVersions hunk)
            | NoFallback \<Rightarrow> None) of
        None \<Rightarrow> None
      | Some replacement \<Rightarrow>
          fallbackLoop strategy rest
            (replaceConflictSpan resolvedContent (startMarker (conflictMarkers hunk))
               (endMarker (conflictMarkers hunk)) replacement))"

definition applyFallbackStrategy ::
  "string \<Rightarrow> FileSystem \<Rightarrow> GitConflict \<Rightarrow> FallbackStrategy \<Rightarrow> error + string option" where
  "applyFallbackStrategy repo fs conflict strategy =
     (case resolverReadFile repo fs (conflictFile conflict) of
        Inl e \<Rightarrow> Inl e
      | Inr text \<Rightarrow> Inr (fallbackLoop strategy (hunks conflict) text))"

text \<open>
  \<^verbatim>\<open>autoResolveConflicts\<close>.  \<^verbatim>\<open>tryResolve\<close> is the body of the \<^verbatim>\<open>try\<close> block for one
  conflict: it returns the updated result and file system, or the exception thrown
  (every statement that can throw comes before the first update of the result).
  \<^verbatim>\<open>resolveConflict\<close> adds the \<^verbatim>\<open>catch\<close> block.  The test \<^verbatim>\<open>if (fallbackContent)\<close>
  holds of a string that is not empty: \<^verbatim>\<open>undefined\<close> and the empty string are falsy.
\<close>

definition emptyResult :: ResolutionResult where
  "emptyResult =
     \<lparr>success = True, resolvedFiles = [], failedFiles = [], errors = [], fallbackApplied = [],
      warnings = [], resultNotes = [], resolvedBy = []\<rparr>"

definition writeResolvedFile ::
  "string \<Rightarrow> bool \<Rightarrow> FileSystem \<Rightarrow> string \<Rightarrow> string \<Rightarrow> error + FileSystem" where
  "writeResolvedFile repo dryRun fs filePath content =
     (if \<not> dryRun then fsWriteFile fs (pathJoin repo filePath) content else Inr fs)"

definition notesOf :: "string \<Rightarrow> string list option \<Rightarrow> string list" where
  "notesOf f ns = (case ns of None \<Rightarrow> [] | Some l \<Rightarrow> map (\<lambda>note. f @ '': '' @ note) l)"

definition fallbackWarning :: "FallbackStrategy \<Rightarrow> string \<Rightarrow> string" where
  "fallbackWarning strategy f =
     ''Applied fallback strategy '' @ [CHR 0x22] @ strategyName strategy @ [CHR 0x22] @ '' to '' @ f
       @ ''. Review before committing.''"

definition noStrategyMatched :: "ResolutionResult \<Rightarrow> string \<Rightarrow> ResolutionResult" where
  "noStrategyMatched res f =
     res\<lparr>failedFiles := failedFiles res @ [f],
         errors := errors res @ [''No automated strategy matched '' @ f @ ''.''],
         success := False\<rparr>"

definition tryResolve ::
  "string \<Rightarrow> ConflictResolutionPlugin list \<Rightarrow> bool \<Rightarrow> FallbackStrategy option
   \<Rightarrow> ResolutionResult \<times> FileSystem \<Rightarrow> GitConflict \<Rightarrow> error + ResolutionResult \<times> FileSystem" where
  "tryResolve repo plugins dryRun fallbackStrategy st conflict =
     (case st of (res, fs) \<Rightarrow>
        (case runPlugins conflict plugins (createContext repo fs) of
           Inl e \<Rightarrow> Inl e
         | Inr (Some pluginOutcome) \<Rightarrow>
             (case writeResolvedFile repo dryRun fs (conflictFile conflict) (outcomeContent pluginOutcome) of
                Inl e \<Rightarrow> Inl e
              | Inr fs' \<Rightarrow>
                  Inr (res\<lparr>resolvedFiles := resolvedFiles res @ [conflictFile conflict],
                           resolvedBy := resolvedBy res @
                             [\<lparr>resolvedFile = conflictFile conflict,
                               resolvedPlugin = pluginName (outcomePlugin pluginOutcome),
                               resolvedNotes = outcomeNotes pluginOutcome\<rparr>],
                           resultNotes := resultNotes res @
                             notesOf (conflictFile conflict) (outcomeNotes pluginOutcome)\<rparr>,
                       fs'))
         | Inr None \<Rightarrow>
             (case fallbackStrategy of
                None \<Rightarrow> Inr (noStrategyMatched res (conflictFile conflict), fs)
              | Some strategy \<Rightarrow>
                  (case applyFallbackStrategy repo fs conflict strategy of
                     Inl e \<Rightarrow> Inl e
                   | Inr None \<Rightarrow> Inr (noStrategyMatched res (conflictFile conflict), fs)
                   | Inr (Some fallbackContent) \<Rightarrow>
                       if fallbackContent = [] then
                         Inr (noStrategyMatched res (conflictFile conflict), fs)
                       else
                         (case writeResolvedFile repo dryRun fs (conflictFile conflict) fallbackContent of
                            Inl e \<Rightarrow> Inl e
                          | Inr fs' \<Rightarrow>
                              Inr (res\<lparr>resolvedFiles := resolvedFiles res @ [conflictFile conflict],
                                       fallbackApplied := fallbackApplied res @
                                         [(conflictFile conflict, strategy)],
                                       warnings := warnings res @
                                         [fallbackWarning strategy (conflictFile conflict)]\<rparr>,
                                   fs'))))))"

definition resolveConflict ::
  "string \<Rightarrow> ConflictResolutionPlugin list \<Rightarrow> bool \<Rightarrow> FallbackStrategy option
   \<Rightarrow> ResolutionResult \<times> FileSystem \<Rightarrow> GitConflict \<Rightarrow> ResolutionResult \<times> FileSystem" where
  "resolveConflict repo plugins dryRun fallbackStrategy st conflict =
     (case tryResolve repo plugins dryRun fallbackStrategy st conflict of
        Inr st' \<Rightarrow> st'
      | Inl e \<Rightarrow>
          (case st of (res, fs) \<Rightarrow>
             (res\<lparr>failedFiles := failedFiles res @ [conflictFile conflict],
                  errors := errors res @
                    [''Failed to resolve '' @ conflictFile conflict @ '': '' @ errorToString e],
                  success := False\<rparr>,
              fs)))"

text \<open>
  \<^verbatim>\<open>stageResolvedFiles\<close> adds each file to the index in turn, with \<^verbatim>\<open>git add\<close> run in the
  repository; on a path that matches no file git fails, and the error carries what git
  wrote, line feed included.  \<^verbatim>\<open>autoResolveConflicts\<close> does not call it: the command that
  runs the resolver does, after a run that is not a dry run.
\<close>

fun stageResolvedFiles :: "string \<Rightarrow> FileSystem \<Rightarrow> string list \<Rightarrow> error + FileSystem" where
  "stageResolvedFiles repo fs [] = Inr fs"
| "stageResolvedFiles repo fs (f # files) =
     (case fileContents fs (pathJoin repo f) of
        None \<Rightarrow>
          Inl (GitError (''fatal: pathspec '' @ [CHR 0x27] @ f @ [CHR 0x27]
                          @ '' did not match any files'' @ [CHR 0x0A]))
      | Some text \<Rightarrow> stageResolvedFiles repo (fs\<lparr>stagedFiles := stagedFiles fs @ [f]\<rparr>) files)"

definition autoResolveConflicts ::
  "string \<Rightarrow> (string \<times> ConflictResolutionPlugin) list \<Rightarrow> FileSystem \<Rightarrow> GitConflict list \<Rightarrow> bool
   \<Rightarrow> FallbackStrategy \<Rightarrow> ResolutionResult \<times> FileSystem" where
  "autoResolveConflicts repo registry fs conflicts dryRun fallback =
     (let fallbackStrategy = (if fallback = NoFallback then None else Some fallback);
          plugins = getConflictResolutionPlugins registry
      in foldl (resolveConflict repo plugins dryRun fallbackStrategy) (emptyResult, fs) conflicts)"

text \<open>
  For the statements about runs: a result extends another when each of its lists begins
  with the other's list and \<^verbatim>\<open>success\<close> has not gone back to true.
\<close>

definition resultExtends :: "ResolutionResult \<Rightarrow> ResolutionResult \<Rightarrow> bool" where
  "resultExtends r r' =
     (prefix (resolvedFiles r) (resolvedFiles r')
      \<and> prefix (failedFiles r) (failedFiles r')
      \<and> prefix (errors r) (errors r')
      \<and> prefix (fallbackApplied r) (fallbackApplied r')
      \<and> prefix (warnings r) (warnings r')
      \<and> prefix (resultNotes r) (resultNotes r')
      \<and> prefix (resolvedBy r) (resolvedBy r')
      \<and> (success r' \<longrightarrow> success r))"

section \<open>Properties of the hunk parser\<close>

text \<open>
  C1 (code defect).  A file with N well-formed conflict regions should parse into N hunks
  whose markers are the lines at the recorded positions.  The file below holds two
  well-formed regions: lines 2 to 8 in the three-way style (with a \<^verbatim>\<open>|||||||\<close> base
  section) and lines 10 to 14 in the two-way style.  The parser returns one hunk, not two:
  after the base section the \<^verbatim>\<open>i++\<close> of line 335 steps over the first region's
  \<^verbatim>\<open>=======\<close> line, so the loop for the current side runs on through the first region's
  incoming side and end marker and into the second region.  The hunk spans lines 2 to 14, and
  its separator and end markers are those of the second region.
\<close>

theorem parseConflictHunks_three_way_then_two_way:
  "parseConflictHunks
     ''a\<newline><<<<<<< HEAD\<newline>c1\<newline>||||||| base\<newline>old\<newline>=======\<newline>i1\<newline>>>>>>>> br\<newline>mid\<newline><<<<<<< HEAD\<newline>c2\<newline>=======\<newline>i2\<newline>>>>>>>> br\<newline>''
   = [\<lparr>startLine = 2, endLine = 14, baseContent = ''old'',
        currentContent = ''c1\<newline>i1\<newline>>>>>>>> br\<newline>mid\<newline><<<<<<< HEAD\<newline>c2'',
        incomingContent = ''i2'',
        conflictMarkers =
          \<lparr>startMarker = ''<<<<<<< HEAD'', separatorMarker = ''======='',
             endMarker = ''>>>>>>> br''\<rparr>\<rparr>]"
  by code_simp

text \<open>
  C2 (code defect).  A well-formed three-way region should give a hunk with the current side
  (between the start marker and the \<^verbatim>\<open>|||||||\<close> line), the base (between the
  \<^verbatim>\<open>|||||||\<close> line and the \<^verbatim>\<open>=======\<close> line) and the incoming side (between the
  \<^verbatim>\<open>=======\<close> line and the end marker).  For the single region below the parser emits
  no hunk at all: the separator is stepped over after the base section, the rest of the file
  is read as current content, and no separator is found before the end of the file.
\<close>

theorem parseConflictHunks_three_way_region:
  "parseConflictHunks
     ''<<<<<<< HEAD\<newline>cur\<newline>||||||| base\<newline>old\<newline>=======\<newline>inc\<newline>>>>>>>> br''
   = []"
  by code_simp

text \<open>
  What does hold of the parser: on a file made of well-formed regions of the two-way style
  (and lines outside them that start no conflict), it returns one hunk for each region, in
  order, with the lines of the region's markers, and with 1-based positions that are those
  of the start and end marker lines.
\<close>

lemma parseLoop_filler:
  "list_all (\<lambda>l. \<not> startsWith l ''<<<<<<<'') filler \<Longrightarrow>
   parseLoop i (filler @ rest) = parseLoop (i + length filler) rest"
  by (induction filler arbitrary: i) simp_all

lemma collectCurrent_two_way:
  "list_all (\<lambda>l. \<not> isSeparatorLine l \<and> \<not> startsWith l ''|||||||'') cur \<Longrightarrow>
   isSeparatorLine sepL \<Longrightarrow>
   collectCurrent i (cur @ sepL # rest) acc base = (i + length cur, sepL # rest, acc @ cur, base)"
  by (induction cur arbitrary: i acc) simp_all

lemma takeWhile_incoming:
  "list_all (\<lambda>l. \<not> isEndLine l) inc \<Longrightarrow> isEndLine endL \<Longrightarrow>
   takeWhile (\<lambda>x. \<not> isEndLine x) (inc @ endL # rest) = inc
   \<and> dropWhile (\<lambda>x. \<not> isEndLine x) (inc @ endL # rest) = endL # rest"
  by (induction inc) simp_all

lemma parseLoop_region:
  assumes "wellFormedTwoWay (filler, startL, cur, sepL, inc, endL)"
  shows "parseLoop i (regionLines (filler, startL, cur, sepL, inc, endL) @ rest)
         = \<lparr>startLine = i + length filler + 1,
            endLine = i + length filler + length cur + length inc + 3,
            baseContent = [],
            currentContent = joinLines cur,
            incomingContent = joinLines inc,
            conflictMarkers = \<lparr>startMarker = startL, separatorMarker = sepL, endMarker = endL\<rparr>\<rparr>
           # parseLoop (i + length filler + length cur + length inc + 3) rest"
proof -
  from assms have f: "list_all (\<lambda>l. \<not> startsWith l ''<<<<<<<'') filler"
    and s: "startsWith startL ''<<<<<<<''"
    and c: "list_all (\<lambda>l. \<not> isSeparatorLine l \<and> \<not> startsWith l ''|||||||'') cur"
    and sp: "isSeparatorLine sepL"
    and n: "list_all (\<lambda>l. \<not> isEndLine l) inc"
    and e: "isEndLine endL"
    by (simp_all add: wellFormedTwoWay_def)
  have "parseLoop i (regionLines (filler, startL, cur, sepL, inc, endL) @ rest)
        = parseLoop (i + length filler) (startL # cur @ sepL # inc @ endL # rest)"
    using parseLoop_filler [OF f] by simp
  also have "\<dots> = \<lparr>startLine = i + length filler + 1,
            endLine = i + length filler + length cur + length inc + 3,
            baseContent = [],
            currentContent = joinLines cur,
            incomingContent = joinLines inc,
            conflictMarkers = \<lparr>startMarker = startL, separatorMarker = sepL, endMarker = endL\<rparr>\<rparr>
           # parseLoop (i + length filler + length cur + length inc + 3) rest"
    using s sp collectCurrent_two_way [OF c sp, of "i + length filler + 1" "inc @ endL # rest" "[]" "[]"]
      takeWhile_incoming [OF n e, of rest]
    by (simp add: Let_def numeral_3_eq_3 ac_simps)
  finally show ?thesis .
qed

lemma parseLoop_two_way_regions:
  assumes "list_all wellFormedTwoWay regions"
    and "list_all (\<lambda>l. \<not> startsWith l ''<<<<<<<'') trailer"
  shows "parseLoop i (concat (map regionLines regions) @ trailer) = expectedHunks i regions"
  using assms(1)
proof (induction regions arbitrary: i)
  case Nil
  from parseLoop_filler [OF assms(2), of i "[]"] show ?case by simp
next
  case (Cons r regions)
  obtain filler startL cur sepL inc endL where r: "r = (filler, startL, cur, sepL, inc, endL)"
    by (cases r) auto
  from Cons.prems r have wf: "wellFormedTwoWay (filler, startL, cur, sepL, inc, endL)"
    and rest: "list_all wellFormedTwoWay regions" by simp_all
  from parseLoop_region [OF wf, of i "concat (map regionLines regions) @ trailer"]
    Cons.IH [OF rest]
  show ?case unfolding r by simp
qed

lemma length_expectedHunks: "length (expectedHunks i regions) = length regions"
  by (induction regions arbitrary: i) auto

lemma expectedHunks_positions:
  assumes "h \<in> set (expectedHunks i regions)"
  shows "startLine h \<le> endLine h \<and> i < startLine h
       \<and> endLine h \<le> i + length (concat (map regionLines regions))
       \<and> startMarker (conflictMarkers h)
           = (concat (map regionLines regions) @ trailer) ! (startLine h - 1 - i)
       \<and> endMarker (conflictMarkers h)
           = (concat (map regionLines regions) @ trailer) ! (endLine h - 1 - i)"
  using assms
proof (induction regions arbitrary: i)
  case Nil
  then show ?case by simp
next
  case (Cons r regions)
  obtain filler startL cur sepL inc endL where r: "r = (filler, startL, cur, sepL, inc, endL)"
    by (cases r) auto
  let ?n = "length filler + length cur + length inc + 3"
  let ?rest = "concat (map regionLines regions) @ trailer"
  have len: "length (regionLines r) = ?n" by (simp add: r)
  show ?case
  proof (cases "h \<in> set (expectedHunks (i + ?n) regions)")
    case True
    from Cons.IH [OF True]
    have ih: "startLine h \<le> endLine h" "i + ?n < startLine h"
      "endLine h \<le> i + ?n + length (concat (map regionLines regions))"
      "startMarker (conflictMarkers h) = ?rest ! (startLine h - 1 - (i + ?n))"
      "endMarker (conflictMarkers h) = ?rest ! (endLine h - 1 - (i + ?n))"
      by simp_all
    have app: "(concat (map regionLines (r # regions)) @ trailer) ! (k + ?n) = ?rest ! k" for k
      using len by (simp add: nth_append)
    from ih(2) have s: "startLine h - 1 - i = (startLine h - 1 - (i + ?n)) + ?n" by simp
    from ih(1,2) have e: "endLine h - 1 - i = (endLine h - 1 - (i + ?n)) + ?n" by simp
    from ih show ?thesis
      unfolding s e app using len by simp
  next
    case False
    with Cons.prems r
    have h: "h = \<lparr>startLine = i + length filler + 1,
      endLine = i + length filler + length cur + length inc + 3,
      baseContent = [],
      currentContent = joinLines cur,
      incomingContent = joinLines inc,
      conflictMarkers = \<lparr>startMarker = startL, separatorMarker = sepL, endMarker = endL\<rparr>\<rparr>"
      by (simp add: ac_simps)
    have 1: "(concat (map regionLines (r # regions)) @ trailer) ! length filler = startL"
      by (simp add: r nth_append)
    have "((filler @ [startL] @ cur @ [sepL] @ inc) @ endL # ?rest)
            ! length (filler @ [startL] @ cur @ [sepL] @ inc) = endL"
      by (rule nth_append_length)
    then have 2: "(concat (map regionLines (r # regions)) @ trailer)
               ! (i + length filler + length cur + length inc + 3 - 1 - i) = endL"
      by (simp add: r ac_simps)
    have 3: "i + length filler + 1 - 1 - i = length filler" by simp
    show ?thesis
      unfolding h using 1 2 3 by (simp add: r)
  qed
qed

lemma parseConflictHunks_two_way_regions:
  assumes "splitLines content = concat (map regionLines regions) @ trailer"
    and "list_all wellFormedTwoWay regions"
    and "list_all (\<lambda>l. \<not> startsWith l ''<<<<<<<'') trailer"
  shows "length (parseConflictHunks content) = length regions
       \<and> (\<forall>h \<in> set (parseConflictHunks content).
            1 \<le> startLine h \<and> startLine h \<le> endLine h
            \<and> endLine h \<le> length (splitLines content)
            \<and> startMarker (conflictMarkers h) = splitLines content ! (startLine h - 1)
            \<and> endMarker (conflictMarkers h) = splitLines content ! (endLine h - 1))"
proof -
  have p: "parseConflictHunks content = expectedHunks 0 regions"
    unfolding parseConflictHunks_def assms(1)
    using assms(2,3) by (rule parseLoop_two_way_regions)
  have "1 \<le> startLine h \<and> startLine h \<le> endLine h
            \<and> endLine h \<le> length (splitLines content)
            \<and> startMarker (conflictMarkers h) = splitLines content ! (startLine h - 1)
            \<and> endMarker (conflictMarkers h) = splitLines content ! (endLine h - 1)"
    if "h \<in> set (parseConflictHunks content)" for h
    using expectedHunks_positions [of h 0 regions trailer] that
    unfolding p assms(1) by simp
  then show ?thesis by (simp add: p length_expectedHunks)
qed

section \<open>Properties of the classifier\<close>

text \<open>
  C3 (as the code has it).  For the conflict that \<^verbatim>\<open>analyzeFileConflict\<close> builds, whatever
  the file: with type WHITESPACE and complexity TRIVIAL the
  flag \<^verbatim>\<open>autoResolvable\<close> is true; with type STRUCTURAL and complexity SIMPLE it is true; with
  type CONTENT and complexity COMPLEX it is false, whatever the hunks are, because the
  simple-content test is consulted only under the guard \<^verbatim>\<open>complexity !== COMPLEX\<close>; and with
  type CONTENT and any other complexity it is true exactly when every hunk passes the
  simple-content test.
\<close>

theorem analyzeFileConflict_autoResolvable:
  fixes f content c
  defines "c \<equiv> analyzeFileConflict f content"
  shows "(conflictType c = WHITESPACE \<and> complexity c = TRIVIAL \<longrightarrow> autoResolvable c)
       \<and> (conflictType c = STRUCTURAL \<and> complexity c = SIMPLE \<longrightarrow> autoResolvable c)
       \<and> (conflictType c = CONTENT \<and> complexity c = COMPLEX \<longrightarrow> \<not> autoResolvable c)
       \<and> (conflictType c = CONTENT \<and> complexity c \<noteq> COMPLEX \<longrightarrow>
              autoResolvable c = list_all isSimpleContentPattern (hunks c))"
proof -
  have ty: "conflictType c = detectConflictType f content"
    and cx: "complexity c = determineOverallComplexity (parseConflictHunks content)"
    and hs: "hunks c = parseConflictHunks content"
    and auto: "autoResolvable c =
        (isAutoResolvable (conflictType c) (complexity c)
         \<or> (if conflictType c = CONTENT \<and> complexity c \<noteq> COMPLEX
             then canAutoResolveContent (hunks c) else False))"
    by (simp_all add: c_def analyzeFileConflict_def Let_def)
  have a: "isAutoResolvable WHITESPACE TRIVIAL" "isAutoResolvable STRUCTURAL SIMPLE"
    by (simp_all add: isAutoResolvable_def TRIVIAL_AUTO_TYPES_def)
  have b: "\<not> isAutoResolvable CONTENT cx'" for cx'
    by (simp add: isAutoResolvable_def TRIVIAL_AUTO_TYPES_def)
  show ?thesis
    unfolding auto using a b by (auto simp: canAutoResolveContent_def)
qed

theorem analyzeFileConflict_autoResolvable_witness:
  "autoResolvable
     (analyzeFileConflict ''notes.txt''
        ''<<<<<<< HEAD\<newline>a  b\<newline>=======\<newline>a b\<newline>>>>>>>> br\<newline>'')
   \<and> autoResolvable
     (analyzeFileConflict ''shape.ts''
        ''interface A {\<newline><<<<<<< HEAD\<newline>  a: string;\<newline>  b: number;\<newline>=======\<newline>  a: string;\<newline>  c: number;\<newline>>>>>>>> br\<newline>}\<newline>'')
   \<and> autoResolvable
     (analyzeFileConflict ''todo.md''
        ''<<<<<<< HEAD\<newline>- a\<newline>- b\<newline>=======\<newline>- a\<newline>- c\<newline>>>>>>>> br\<newline>'')"
proof -
  let ?w = "analyzeFileConflict ''notes.txt''
        ''<<<<<<< HEAD\<newline>a  b\<newline>=======\<newline>a b\<newline>>>>>>>> br\<newline>''"
  let ?s = "analyzeFileConflict ''shape.ts''
        ''interface A {\<newline><<<<<<< HEAD\<newline>  a: string;\<newline>  b: number;\<newline>=======\<newline>  a: string;\<newline>  c: number;\<newline>>>>>>>> br\<newline>}\<newline>''"
  let ?t = "analyzeFileConflict ''todo.md''
        ''<<<<<<< HEAD\<newline>- a\<newline>- b\<newline>=======\<newline>- a\<newline>- c\<newline>>>>>>>> br\<newline>''"
  have w: "conflictType ?w = WHITESPACE \<and> complexity ?w = TRIVIAL" by code_simp
  have s: "conflictType ?s = STRUCTURAL \<and> complexity ?s = SIMPLE" by code_simp
  have t: "conflictType ?t = CONTENT \<and> complexity ?t \<noteq> COMPLEX" by code_simp
  have t': "list_all isSimpleContentPattern (hunks ?t)" by code_simp
  from w s t t'
    analyzeFileConflict_autoResolvable [of "''notes.txt''"
      "''<<<<<<< HEAD\<newline>a  b\<newline>=======\<newline>a b\<newline>>>>>>>> br\<newline>''"]
    analyzeFileConflict_autoResolvable [of "''shape.ts''"
      "''interface A {\<newline><<<<<<< HEAD\<newline>  a: string;\<newline>  b: number;\<newline>=======\<newline>  a: string;\<newline>  c: number;\<newline>>>>>>>> br\<newline>}\<newline>''"]
    analyzeFileConflict_autoResolvable [of "''todo.md''"
      "''<<<<<<< HEAD\<newline>- a\<newline>- b\<newline>=======\<newline>- a\<newline>- c\<newline>>>>>>>> br\<newline>''"]
  show ?thesis by blast
qed

text \<open>
  The claim as written fails: in the file below the single hunk has an empty current side and
  21 incoming lines, so its complexity is COMPLEX and it passes the simple-content test, yet
  the flag is false.
\<close>

theorem analyzeFileConflict_complex_content_counterexample:
  "conflictType
     (analyzeFileConflict ''notes.txt''
        ''<<<<<<< HEAD\<newline>=======\<newline>l1\<newline>l2\<newline>l3\<newline>l4\<newline>l5\<newline>l6\<newline>l7\<newline>l8\<newline>l9\<newline>l10\<newline>l11\<newline>l12\<newline>l13\<newline>l14\<newline>l15\<newline>l16\<newline>l17\<newline>l18\<newline>l19\<newline>l20\<newline>l21\<newline>>>>>>>> br\<newline>'')
     = CONTENT
   \<and> complexity
     (analyzeFileConflict ''notes.txt''
        ''<<<<<<< HEAD\<newline>=======\<newline>l1\<newline>l2\<newline>l3\<newline>l4\<newline>l5\<newline>l6\<newline>l7\<newline>l8\<newline>l9\<newline>l10\<newline>l11\<newline>l12\<newline>l13\<newline>l14\<newline>l15\<newline>l16\<newline>l17\<newline>l18\<newline>l19\<newline>l20\<newline>l21\<newline>>>>>>>> br\<newline>'')
     = COMPLEX
   \<and> list_all isSimpleContentPattern
     (hunks
        (analyzeFileConflict ''notes.txt''
           ''<<<<<<< HEAD\<newline>=======\<newline>l1\<newline>l2\<newline>l3\<newline>l4\<newline>l5\<newline>l6\<newline>l7\<newline>l8\<newline>l9\<newline>l10\<newline>l11\<newline>l12\<newline>l13\<newline>l14\<newline>l15\<newline>l16\<newline>l17\<newline>l18\<newline>l19\<newline>l20\<newline>l21\<newline>>>>>>>> br\<newline>''))
   \<and> autoResolvable
     (analyzeFileConflict ''notes.txt''
        ''<<<<<<< HEAD\<newline>=======\<newline>l1\<newline>l2\<newline>l3\<newline>l4\<newline>l5\<newline>l6\<newline>l7\<newline>l8\<newline>l9\<newline>l10\<newline>l11\<newline>l12\<newline>l13\<newline>l14\<newline>l15\<newline>l16\<newline>l17\<newline>l18\<newline>l19\<newline>l20\<newline>l21\<newline>>>>>>>> br\<newline>'')
     = False"
  by code_simp

section \<open>Properties of the simple-content merge\<close>

text \<open>
  C8 (code defect).  The rule "equal once every run of white space is one space" exists
  twice.  The analyzer's \<^verbatim>\<open>isSimpleContentPattern\<close> applies it as stated, with
  \<^verbatim>\<open>replace(/\s+/g, ' ')\<close>; \<^verbatim>\<open>computeContentReplacement\<close> compares the two sides under
  \<^verbatim>\<open>normalizeWhitespace\<close>, which leaves a run of spaces inside a line as it is.  In the
  file below the first region has the sides \<^verbatim>\<open>a  b\<close> and \<^verbatim>\<open>a b\<close>, equal once runs of
  white space are collapsed, and the second is a list on both sides.  The analyzer gives the
  type CONTENT, accepts both hunks and flags the conflict auto-resolvable; the replacement
  of the first hunk is not the normalized current content, there is none; so the
  simple-content plugin does not support the conflict, and the run resolves the file by the
  fallback, with a warning.
\<close>

theorem computeContentReplacement_collapse_equal_hunk:
  "map currentContent (hunks
     (analyzeFileConflict ''notes.txt''
        ''<<<<<<< HEAD\<newline>a  b\<newline>=======\<newline>a b\<newline>>>>>>>> br\<newline>keep\<newline><<<<<<< HEAD\<newline>- x\<newline>=======\<newline>- y\<newline>>>>>>>> br\<newline>'')) = [''a  b'', ''- x'']
   \<and> map incomingContent (hunks
     (analyzeFileConflict ''notes.txt''
        ''<<<<<<< HEAD\<newline>a  b\<newline>=======\<newline>a b\<newline>>>>>>>> br\<newline>keep\<newline><<<<<<< HEAD\<newline>- x\<newline>=======\<newline>- y\<newline>>>>>>>> br\<newline>'')) = [''a b'', ''- y'']
   \<and> collapseWhitespace (trim ''a  b'') = collapseWhitespace (trim ''a b'')
   \<and> conflictType
     (analyzeFileConflict ''notes.txt''
        ''<<<<<<< HEAD\<newline>a  b\<newline>=======\<newline>a b\<newline>>>>>>>> br\<newline>keep\<newline><<<<<<< HEAD\<newline>- x\<newline>=======\<newline>- y\<newline>>>>>>>> br\<newline>'') = CONTENT
   \<and> list_all isSimpleContentPattern (hunks
     (analyzeFileConflict ''notes.txt''
        ''<<<<<<< HEAD\<newline>a  b\<newline>=======\<newline>a b\<newline>>>>>>>> br\<newline>keep\<newline><<<<<<< HEAD\<newline>- x\<newline>=======\<newline>- y\<newline>>>>>>>> br\<newline>''))
   \<and> autoResolvable
     (analyzeFileConflict ''notes.txt''
        ''<<<<<<< HEAD\<newline>a  b\<newline>=======\<newline>a b\<newline>>>>>>>> br\<newline>keep\<newline><<<<<<< HEAD\<newline>- x\<newline>=======\<newline>- y\<newline>>>>>>>> br\<newline>'') = True
   \<and> computeContentReplacement
     (analyzeFileConflict ''notes.txt''
        ''<<<<<<< HEAD\<newline>a  b\<newline>=======\<newline>a b\<newline>>>>>>>> br\<newline>keep\<newline><<<<<<< HEAD\<newline>- x\<newline>=======\<newline>- y\<newline>>>>>>>> br\<newline>'') 0 = Inr None
   \<and> supports simpleContentPlugin
     (analyzeFileConflict ''notes.txt''
        ''<<<<<<< HEAD\<newline>a  b\<newline>=======\<newline>a b\<newline>>>>>>>> br\<newline>keep\<newline><<<<<<< HEAD\<newline>- x\<newline>=======\<newline>- y\<newline>>>>>>>> br\<newline>'') = False
   \<and> fst (autoResolveConflicts ''/repo'' (builtinRegistry (\<lambda>a b. 0))
       \<lparr>fileContents = [''/repo/notes.txt'' \<mapsto>
          ''<<<<<<< HEAD\<newline>a  b\<newline>=======\<newline>a b\<newline>>>>>>>> br\<newline>keep\<newline><<<<<<< HEAD\<newline>- x\<newline>=======\<newline>- y\<newline>>>>>>>> br\<newline>''],
        writable = (\<lambda>p. True), stagedFiles = []\<rparr>
       [analyzeFileConflict ''notes.txt''
          ''<<<<<<< HEAD\<newline>a  b\<newline>=======\<newline>a b\<newline>>>>>>>> br\<newline>keep\<newline><<<<<<< HEAD\<newline>- x\<newline>=======\<newline>- y\<newline>>>>>>>> br\<newline>'']
       False Incoming)
     = \<lparr>success = True, resolvedFiles = [''notes.txt''], failedFiles = [], errors = [],
        fallbackApplied = [(''notes.txt'', Incoming)],
        warnings = [''Applied fallback strategy \"incoming\" to notes.txt. Review before committing.''],
        resultNotes = [], resolvedBy = []\<rparr>"
  by code_simp

text \<open>
  What \<^verbatim>\<open>computeContentReplacement\<close> does compute: for a hunk whose trimmed current and
  incoming contents are both non-empty, differ, and are equal after
  \<^verbatim>\<open>normalizeWhitespace\<close> (tabs to two spaces, trailing spaces removed from every line, three
  or more line feeds in a row shortened to two), the replacement is \<^verbatim>\<open>normalizeWhitespace\<close>
  of the raw current content; as for the hunk with the sides \<^verbatim>\<open>a  \<close>, \<^verbatim>\<open>b\<close> and
  \<^verbatim>\<open>a\<close>, \<^verbatim>\<open>b\<close>.
\<close>

lemma computeContentReplacement_whitespace_equal:
  assumes "hunkIndex < length (hunks conflict)"
    and "h = hunks conflict ! hunkIndex"
    and "trim (currentContent h) \<noteq> []"
    and "trim (incomingContent h) \<noteq> []"
    and "trim (currentContent h) \<noteq> trim (incomingContent h)"
    and "normalizeWhitespace (trim (currentContent h))
         = normalizeWhitespace (trim (incomingContent h))"
  shows "computeContentReplacement conflict hunkIndex
         = Inr (Some (normalizeWhitespace (currentContent h)))"
  using assms by (simp add: computeContentReplacement_def hunkReplacement_def Let_def)

lemma computeContentReplacement_whitespace_equal_example:
  "computeContentReplacement
     (analyzeFileConflict ''notes.txt''
        ''<<<<<<< HEAD\<newline>a  \<newline>b\<newline>=======\<newline>a\<newline>b\<newline>>>>>>>> br'') 0
   = Inr (Some ''a\<newline>b'')"
proof -
  let ?c = "analyzeFileConflict ''notes.txt''
        ''<<<<<<< HEAD\<newline>a  \<newline>b\<newline>=======\<newline>a\<newline>b\<newline>>>>>>>> br''"
  let ?h = "hunks ?c ! 0"
  have 1: "0 < length (hunks ?c)" by code_simp
  have 2: "trim (currentContent ?h) \<noteq> []" by code_simp
  have 3: "trim (incomingContent ?h) \<noteq> []" by code_simp
  have 4: "trim (currentContent ?h) \<noteq> trim (incomingContent ?h)" by code_simp
  have 5: "normalizeWhitespace (trim (currentContent ?h))
           = normalizeWhitespace (trim (incomingContent ?h))" by code_simp
  have 6: "normalizeWhitespace (currentContent ?h) = ''a\<newline>b''" by code_simp
  from computeContentReplacement_whitespace_equal [OF 1 refl 2 3 4 5] 6
  show ?thesis by simp
qed

text \<open>
  C9 (as the code has it).  The key-value merge of the current lines \<^verbatim>\<open>a: 1,\<close> and
  \<^verbatim>\<open>b: 2,\<close> with the incoming lines \<^verbatim>\<open>b: 3,\<close> and \<^verbatim>\<open>c: 4,\<close> yields the three lines
  \<^verbatim>\<open>a: 1,\<close>, \<^verbatim>\<open>b: 3,\<close> and \<^verbatim>\<open>c: 4,\<close>: the keys in the order a, b, c, the value of b
  from the incoming side, and every line as it was written, the last with its comma.
\<close>

theorem mergeKeyValueLines_example:
  "mergeKeyValueLines [''a: 1,'', ''b: 2,''] [''b: 3,'', ''c: 4,'']
   = Some ''a: 1,\<newline>b: 3,\<newline>c: 4,''"
  by code_simp

text \<open>
  The claim as written fails on its last clause: the last line of the output ends with a
  comma too.  The commas are put right only when a key is written in double quotes
  (\<^verbatim>\<open>isJsonStyle\<close>), as the lemma after it shows for the same entries with quoted keys.
\<close>

theorem mergeKeyValueLines_last_line_counterexample:
  "map_option (\<lambda>out. map endsWithComma (splitLines out))
     (mergeKeyValueLines [''a: 1,'', ''b: 2,''] [''b: 3,'', ''c: 4,''])
   = Some [True, True, True]"
  by code_simp

lemma mergeKeyValueLines_json_style:
  "mergeKeyValueLines [''\"a\": 1,'', ''\"b\": 2,''] [''\"b\": 3,'', ''\"c\": 4,'']
   = Some ''\"a\": 1,\<newline>\"b\": 3,\<newline>\"c\": 4''"
  by code_simp

section \<open>Properties of the registry and the plugin pipeline\<close>

text \<open>
  The comparator of \<^verbatim>\<open>getConflictResolutionPlugins\<close> is the difference of two keys.  Under
  such a comparator the insertion sort returns the elements in ascending order of their keys
  and keeps elements of equal keys in their order in the input.
\<close>

lemma insertSorted_mset: "mset (insertSorted cmp x ys) = add_mset x (mset ys)"
  by (induction ys) auto

lemma insertSorted_set: "set (insertSorted cmp x ys) = insert x (set ys)"
  by (induction ys) auto

lemma insertSorted_sorted:
  fixes f :: "'a \<Rightarrow> int"
  shows "sorted (map f ys) \<Longrightarrow> sorted (map f (insertSorted (\<lambda>a b. f a - f b) x ys))"
  by (induction ys) (auto simp: insertSorted_set)

lemma insertSorted_filter:
  fixes f :: "'a \<Rightarrow> int"
  shows "sorted (map f ys) \<Longrightarrow>
    filter (\<lambda>y. f y = k) (insertSorted (\<lambda>a b. f a - f b) x ys)
    = filter (\<lambda>y. f y = k) ys @ (if f x = k then [x] else [])"
proof (induction ys)
  case Nil
  then show ?case by simp
next
  case (Cons y ys)
  show ?case
  proof (cases "f x < f y")
    case True
    have "\<forall>z \<in> set (y # ys). f x < f z" using Cons.prems True by auto
    then have "f x = k \<Longrightarrow> filter (\<lambda>y. f y = k) (y # ys) = []"
      by (auto simp: filter_empty_conv)
    with True show ?thesis by auto
  next
    case False
    with Cons show ?thesis by auto
  qed
qed

lemma foldl_insertSorted:
  fixes f :: "'a \<Rightarrow> int"
  shows "sorted (map f acc) \<Longrightarrow>
    sorted (map f (foldl (\<lambda>s x. insertSorted (\<lambda>a b. f a - f b) x s) acc xs))
    \<and> (\<forall>k. filter (\<lambda>y. f y = k) (foldl (\<lambda>s x. insertSorted (\<lambda>a b. f a - f b) x s) acc xs)
          = filter (\<lambda>y. f y = k) acc @ filter (\<lambda>y. f y = k) xs)
    \<and> mset (foldl (\<lambda>s x. insertSorted (\<lambda>a b. f a - f b) x s) acc xs) = mset acc + mset xs"
proof (induction xs arbitrary: acc)
  case Nil
  then show ?case by simp
next
  case (Cons x xs)
  from Cons.IH [OF insertSorted_sorted [OF Cons.prems, of x]] Cons.prems
  show ?case by (simp add: insertSorted_filter insertSorted_mset)
qed

lemma arraySort_by_key:
  fixes f :: "'a \<Rightarrow> int"
  shows "sorted (map f (arraySort (\<lambda>a b. f a - f b) xs))"
    and "filter (\<lambda>y. f y = k) (arraySort (\<lambda>a b. f a - f b) xs) = filter (\<lambda>y. f y = k) xs"
    and "mset (arraySort (\<lambda>a b. f a - f b) xs) = mset xs"
  using foldl_insertSorted [of f "[]" xs] by (simp_all add: arraySort_def)

text \<open>
  Plugins that do not support the conflict are passed over.
\<close>

lemma runPlugins_skip:
  "list_all (\<lambda>q. \<not> supports q conflict) pre \<Longrightarrow>
   runPlugins conflict (pre @ rest) context = runPlugins conflict rest context"
  by (induction pre) auto

text \<open>
  Registering a plugin under a name that is not in the registry puts it last in the
  registry's order.
\<close>

lemma registerConflictResolutionPlugin_new:
  "pluginName plugin \<notin> set (map fst registry) \<Longrightarrow>
   registerConflictResolutionPlugin registry plugin = registry @ [(pluginName plugin, plugin)]"
  unfolding registerConflictResolutionPlugin_def
  by (induction registry) auto

text \<open>
  C5.  The ordered view of the registry is sorted in ascending order of priority; plugins of
  equal priority stand in it in the order of the registry, which is the order of
  registration (a plugin registered under a new name comes last); a plugin without a
  priority counts as one of priority 100; and
  when a registered plugin supports a conflict and resolves it, and every other registered
  plugin that supports the conflict has a strictly higher priority number, the outcome of
  the pipeline is that plugin's content and notes.  With two supporting plugins of
  priorities 10 and 20, the outcome is that of the plugin of priority 10.
\<close>

theorem getConflictResolutionPlugins_priority_order:
  fixes registry :: "(string \<times> ConflictResolutionPlugin) list"
  defines "view \<equiv> getConflictResolutionPlugins registry"
  shows "sorted (map priorityOrDefault view)
     \<and> (\<forall>k. filter (\<lambda>p. priorityOrDefault p = k) view
             = filter (\<lambda>p. priorityOrDefault p = k) (map snd registry))
     \<and> (\<forall>plugin. pluginName plugin \<notin> set (map fst registry) \<longrightarrow>
           map snd (registerConflictResolutionPlugin registry plugin)
           = map snd registry @ [plugin])
     \<and> (\<forall>p. priority p = None \<longrightarrow> priorityOrDefault p = 100)
     \<and> (\<forall>p n. priority p = Some n \<longrightarrow> priorityOrDefault p = n)
     \<and> (\<forall>winner resolution.
           winner \<in> set (map snd registry)
           \<and> supports winner conflict
           \<and> resolve winner conflict context = Inr (Some resolution)
           \<and> (\<forall>q \<in> set (map snd registry).
                 q \<noteq> winner \<and> supports q conflict
                 \<longrightarrow> priorityOrDefault winner < priorityOrDefault q)
           \<longrightarrow> runPlugins conflict view context
               = Inr (Some \<lparr>outcomeContent = resolutionContent resolution,
                           outcomePlugin = winner,
                           outcomeNotes = resolutionNotes resolution\<rparr>))"
proof -
  have srt: "sorted (map priorityOrDefault view)"
    and stable: "\<And>k. filter (\<lambda>p. priorityOrDefault p = k) view
             = filter (\<lambda>p. priorityOrDefault p = k) (map snd registry)"
    and ms: "mset view = mset (map snd registry)"
    unfolding view_def getConflictResolutionPlugins_def
    by (rule arraySort_by_key)+
  have win: "runPlugins conflict view context
               = Inr (Some \<lparr>outcomeContent = resolutionContent resolution,
                           outcomePlugin = winner,
                           outcomeNotes = resolutionNotes resolution\<rparr>)"
    if w: "winner \<in> set (map snd registry)"
      and sup: "supports winner conflict"
      and res: "resolve winner conflict context = Inr (Some resolution)"
      and low: "\<forall>q \<in> set (map snd registry).
                 q \<noteq> winner \<and> supports q conflict
                 \<longrightarrow> priorityOrDefault winner < priorityOrDefault q"
    for winner resolution
  proof -
    have sets: "set view = set (map snd registry)" using ms by (rule mset_eq_setD)
    with w have "winner \<in> set view" by simp
    then obtain pre post where split: "view = pre @ winner # post" and notin: "winner \<notin> set pre"
      by (auto dest: split_list_first)
    have "\<not> supports q conflict" if q: "q \<in> set pre" for q
    proof
      assume s: "supports q conflict"
      from q split sets have "q \<in> set (map snd registry)" by auto
      moreover from q notin have "q \<noteq> winner" by auto
      ultimately have "priorityOrDefault winner < priorityOrDefault q" using low s by blast
      moreover from srt split q have "priorityOrDefault q \<le> priorityOrDefault winner"
        by (auto simp: sorted_append)
      ultimately show False by simp
    qed
    then have "list_all (\<lambda>q. \<not> supports q conflict) pre" by (simp add: list_all_iff)
    then have "runPlugins conflict view context = runPlugins conflict (winner # post) context"
      unfolding split by (rule runPlugins_skip)
    with sup res show ?thesis by simp
  qed
  have d1: "priority p = None \<longrightarrow> priorityOrDefault p = 100" for p
    by (simp add: priorityOrDefault_def)
  have d2: "priority p = Some n \<longrightarrow> priorityOrDefault p = n" for p n
    by (simp add: priorityOrDefault_def)
  have new: "pluginName plugin \<notin> set (map fst registry) \<longrightarrow>
           map snd (registerConflictResolutionPlugin registry plugin)
           = map snd registry @ [plugin]" for plugin
    by (simp add: registerConflictResolutionPlugin_new)
  from srt stable win d1 d2 new show ?thesis by blast
qed

theorem getConflictResolutionPlugins_priority_order_witness:
  "map pluginName
     (getConflictResolutionPlugins
        (foldl registerConflictResolutionPlugin (builtinRegistry (\<lambda>a b. 0))
           [\<lparr>pluginName = ''slow'', priority = Some 20, supports = (\<lambda>c. True),
             resolve = (\<lambda>c ctx. Inr (Some \<lparr>resolutionContent = ''from slow'', resolutionNotes = None\<rparr>))\<rparr>,
            \<lparr>pluginName = ''unset'', priority = None, supports = (\<lambda>c. True),
             resolve = (\<lambda>c ctx. Inr (Some \<lparr>resolutionContent = ''from unset'', resolutionNotes = None\<rparr>))\<rparr>,
            \<lparr>pluginName = ''fast'', priority = Some 10, supports = (\<lambda>c. True),
             resolve = (\<lambda>c ctx. Inr (Some \<lparr>resolutionContent = ''from fast'', resolutionNotes = None\<rparr>))\<rparr>]))
   = [''whitespace-normalizer'', ''fast'', ''import-merge'', ''slow'', ''simple-content-merge'', ''unset'']
   \<and> map_option (\<lambda>out. (outcomeContent out, pluginName (outcomePlugin out)))
        (projr (runPlugins
           \<lparr>conflictFile = ''a.txt'', conflictType = SEMANTIC, hunks = [], complexity = TRIVIAL,
            explanation = None, autoResolvable = False\<rparr>
           (getConflictResolutionPlugins
              (foldl registerConflictResolutionPlugin (builtinRegistry (\<lambda>a b. 0))
                 [\<lparr>pluginName = ''slow'', priority = Some 20, supports = (\<lambda>c. True),
                   resolve = (\<lambda>c ctx. Inr (Some \<lparr>resolutionContent = ''from slow'', resolutionNotes = None\<rparr>))\<rparr>,
                  \<lparr>pluginName = ''unset'', priority = None, supports = (\<lambda>c. True),
                   resolve = (\<lambda>c ctx. Inr (Some \<lparr>resolutionContent = ''from unset'', resolutionNotes = None\<rparr>))\<rparr>,
                  \<lparr>pluginName = ''fast'', priority = Some 10, supports = (\<lambda>c. True),
                   resolve = (\<lambda>c ctx. Inr (Some \<lparr>resolutionContent = ''from fast'', resolutionNotes = None\<rparr>))\<rparr>]))
           (createContext ''/repo'' \<lparr>fileContents = Map.empty, writable = (\<lambda>p. True), stagedFiles = []\<rparr>)))
     = Some (''from fast'', ''fast'')"
proof -
  define slow where "slow = \<lparr>pluginName = ''slow'', priority = Some 20, supports = (\<lambda>c. True),
      resolve = (\<lambda>c ctx. Inr (Some \<lparr>resolutionContent = ''from slow'', resolutionNotes = None\<rparr>)
                   :: error + PluginResolution option)\<rparr>"
  define unset where "unset = \<lparr>pluginName = ''unset'', priority = None, supports = (\<lambda>c. True),
      resolve = (\<lambda>c ctx. Inr (Some \<lparr>resolutionContent = ''from unset'', resolutionNotes = None\<rparr>)
                   :: error + PluginResolution option)\<rparr>"
  define fast where "fast = \<lparr>pluginName = ''fast'', priority = Some 10, supports = (\<lambda>c. True),
      resolve = (\<lambda>c ctx. Inr (Some \<lparr>resolutionContent = ''from fast'', resolutionNotes = None\<rparr>)
                   :: error + PluginResolution option)\<rparr>"
  define reg where "reg = foldl registerConflictResolutionPlugin (builtinRegistry (\<lambda>a b. 0))
      [slow, unset, fast]"
  define c where "c = \<lparr>conflictFile = ''a.txt'', conflictType = SEMANTIC, hunks = [],
      complexity = TRIVIAL, explanation = None, autoResolvable = False\<rparr>"
  define ctx where "ctx = createContext ''/repo''
      \<lparr>fileContents = Map.empty, writable = (\<lambda>p. True), stagedFiles = []\<rparr>"
  have regv: "map snd reg
      = [whitespacePlugin, importPlugin (\<lambda>a b. 0), simpleContentPlugin, slow, unset, fast]"
    by (simp add: reg_def builtinRegistry_def builtinPlugins_def
        registerConflictResolutionPlugin_def whitespacePlugin_def importPlugin_def
        simpleContentPlugin_def slow_def unset_def fast_def)
  have names: "map pluginName (getConflictResolutionPlugins reg)
      = [''whitespace-normalizer'', ''fast'', ''import-merge'', ''slow'',
         ''simple-content-merge'', ''unset'']"
    unfolding getConflictResolutionPlugins_def regv
    by (simp add: arraySort_def priorityOrDefault_def whitespacePlugin_def importPlugin_def
        simpleContentPlugin_def slow_def unset_def fast_def)
  have h1: "fast \<in> set (map snd reg)" unfolding regv by simp
  have h2: "supports fast c" by (simp add: fast_def)
  have h3: "resolve fast c ctx
            = Inr (Some \<lparr>resolutionContent = ''from fast'', resolutionNotes = None\<rparr>)"
    by (simp add: fast_def)
  have h4: "\<forall>q \<in> set (map snd reg). q \<noteq> fast \<and> supports q c
              \<longrightarrow> priorityOrDefault fast < priorityOrDefault q"
    unfolding regv
    by (simp add: priorityOrDefault_def whitespacePlugin_def importPlugin_def
        simpleContentPlugin_def simpleContentSupports_def slow_def unset_def fast_def c_def)
  from getConflictResolutionPlugins_priority_order [of reg c ctx]
  have "fast \<in> set (map snd reg)
        \<and> supports fast c
        \<and> resolve fast c ctx
            = Inr (Some \<lparr>resolutionContent = ''from fast'', resolutionNotes = None\<rparr>)
        \<and> (\<forall>q \<in> set (map snd reg). q \<noteq> fast \<and> supports q c
              \<longrightarrow> priorityOrDefault fast < priorityOrDefault q)
        \<longrightarrow> runPlugins c (getConflictResolutionPlugins reg) ctx
            = Inr (Some \<lparr>outcomeContent =
                           resolutionContent
                             \<lparr>resolutionContent = ''from fast'', resolutionNotes = None\<rparr>,
                         outcomePlugin = fast,
                         outcomeNotes =
                           resolutionNotes
                             \<lparr>resolutionContent = ''from fast'', resolutionNotes = None\<rparr>\<rparr>)"
    by blast
  with h1 h2 h3 h4
  have "map_option (\<lambda>out. (outcomeContent out, pluginName (outcomePlugin out)))
          (projr (runPlugins c (getConflictResolutionPlugins reg) ctx))
        = Some (''from fast'', ''fast'')"
    by (simp add: fast_def)
  with names
  have "map pluginName (getConflictResolutionPlugins reg)
      = [''whitespace-normalizer'', ''fast'', ''import-merge'', ''slow'',
         ''simple-content-merge'', ''unset'']
      \<and> map_option (\<lambda>out. (outcomeContent out, pluginName (outcomePlugin out)))
          (projr (runPlugins c (getConflictResolutionPlugins reg) ctx))
        = Some (''from fast'', ''fast'')"
    by simp
  then show ?thesis unfolding reg_def slow_def unset_def fast_def c_def ctx_def .
qed

section \<open>Properties of a resolution run\<close>

text \<open>
  The run is a left fold of \<^verbatim>\<open>resolveConflict\<close>, so a run over a list extended by one
  conflict is that conflict's step after the run over the list.  The remaining lemmas give
  the result of \<^verbatim>\<open>tryResolve\<close> on each of its branches, and the three outcomes a step can
  have: resolved by a plugin, resolved by the fallback, or recorded as failed.
\<close>

lemma autoResolveConflicts_snoc:
  "autoResolveConflicts repo registry fs (conflicts @ [conflict]) dryRun fallback
   = resolveConflict repo (getConflictResolutionPlugins registry) dryRun
       (if fallback = NoFallback then None else Some fallback)
       (autoResolveConflicts repo registry fs conflicts dryRun fallback) conflict"
  by (simp add: autoResolveConflicts_def Let_def)

lemma autoResolveConflicts_Nil:
  "autoResolveConflicts repo registry fs [] dryRun fallback = (emptyResult, fs)"
  by (simp add: autoResolveConflicts_def Let_def)

lemma tryResolve_plugin_throws:
  "runPlugins conflict plugins (createContext repo fs) = Inl e \<Longrightarrow>
   tryResolve repo plugins dryRun fallbackStrategy (res, fs) conflict = Inl e"
  by (simp add: tryResolve_def)

lemma tryResolve_plugin_resolves:
  "runPlugins conflict plugins (createContext repo fs) = Inr (Some out) \<Longrightarrow>
   tryResolve repo plugins dryRun fallbackStrategy (res, fs) conflict
   = (case writeResolvedFile repo dryRun fs (conflictFile conflict) (outcomeContent out) of
        Inl e \<Rightarrow> Inl e
      | Inr fs' \<Rightarrow>
          Inr (res\<lparr>resolvedFiles := resolvedFiles res @ [conflictFile conflict],
                   resolvedBy := resolvedBy res @
                     [\<lparr>resolvedFile = conflictFile conflict,
                       resolvedPlugin = pluginName (outcomePlugin out),
                       resolvedNotes = outcomeNotes out\<rparr>],
                   resultNotes := resultNotes res @
                     notesOf (conflictFile conflict) (outcomeNotes out)\<rparr>,
               fs'))"
  by (simp add: tryResolve_def)

lemma tryResolve_no_fallback:
  "runPlugins conflict plugins (createContext repo fs) = Inr None \<Longrightarrow>
   tryResolve repo plugins dryRun None (res, fs) conflict
   = Inr (noStrategyMatched res (conflictFile conflict), fs)"
  by (simp add: tryResolve_def)

lemma tryResolve_fallback:
  "runPlugins conflict plugins (createContext repo fs) = Inr None \<Longrightarrow>
   tryResolve repo plugins dryRun (Some strategy) (res, fs) conflict
   = (case applyFallbackStrategy repo fs conflict strategy of
        Inl e \<Rightarrow> Inl e
      | Inr None \<Rightarrow> Inr (noStrategyMatched res (conflictFile conflict), fs)
      | Inr (Some fallbackContent) \<Rightarrow>
          if fallbackContent = [] then Inr (noStrategyMatched res (conflictFile conflict), fs)
          else
            (case writeResolvedFile repo dryRun fs (conflictFile conflict) fallbackContent of
               Inl e \<Rightarrow> Inl e
             | Inr fs' \<Rightarrow>
                 Inr (res\<lparr>resolvedFiles := resolvedFiles res @ [conflictFile conflict],
                          fallbackApplied := fallbackApplied res @
                            [(conflictFile conflict, strategy)],
                          warnings := warnings res @
                            [fallbackWarning strategy (conflictFile conflict)]\<rparr>,
                      fs')))"
  by (simp add: tryResolve_def)


lemma resolveConflict_outcome:
  obtains
    (plugin) out fs' where
      "runPlugins conflict plugins (createContext repo fs) = Inr (Some out)"
      "writeResolvedFile repo dryRun fs (conflictFile conflict) (outcomeContent out) = Inr fs'"
      "resolveConflict repo plugins dryRun fallbackStrategy (res, fs) conflict
       = (res\<lparr>resolvedFiles := resolvedFiles res @ [conflictFile conflict],
              resolvedBy := resolvedBy res @
                [\<lparr>resolvedFile = conflictFile conflict,
                  resolvedPlugin = pluginName (outcomePlugin out),
                  resolvedNotes = outcomeNotes out\<rparr>],
              resultNotes := resultNotes res @
                notesOf (conflictFile conflict) (outcomeNotes out)\<rparr>,
          fs')"
  | (fallback) strategy fallbackContent fs' where
      "fallbackStrategy = Some strategy"
      "runPlugins conflict plugins (createContext repo fs) = Inr None"
      "applyFallbackStrategy repo fs conflict strategy = Inr (Some fallbackContent)"
      "fallbackContent \<noteq> []"
      "writeResolvedFile repo dryRun fs (conflictFile conflict) fallbackContent = Inr fs'"
      "resolveConflict repo plugins dryRun fallbackStrategy (res, fs) conflict
       = (res\<lparr>resolvedFiles := resolvedFiles res @ [conflictFile conflict],
              fallbackApplied := fallbackApplied res @ [(conflictFile conflict, strategy)],
              warnings := warnings res @ [fallbackWarning strategy (conflictFile conflict)]\<rparr>,
          fs')"
  | (failure) msg where
      "resolveConflict repo plugins dryRun fallbackStrategy (res, fs) conflict
       = (res\<lparr>failedFiles := failedFiles res @ [conflictFile conflict],
              errors := errors res @ [msg],
              success := False\<rparr>,
          fs)"
proof (cases "runPlugins conflict plugins (createContext repo fs)")
  case (Inl e)
  then show ?thesis
    by (intro failure) (simp add: resolveConflict_def tryResolve_plugin_throws)
next
  case (Inr r)
  show ?thesis
  proof (cases r)
    case (Some out)
    with Inr have run: "runPlugins conflict plugins (createContext repo fs) = Inr (Some out)"
      by simp
    show ?thesis
    proof (cases "writeResolvedFile repo dryRun fs (conflictFile conflict) (outcomeContent out)")
      case (Inl e)
      with run show ?thesis
        by (intro failure) (simp add: resolveConflict_def tryResolve_plugin_resolves)
    next
      case (Inr fs')
      with run show ?thesis
        by (intro plugin [of out fs']) (simp_all add: resolveConflict_def tryResolve_plugin_resolves)
    qed
  next
    case None
    with Inr have run: "runPlugins conflict plugins (createContext repo fs) = Inr None" by simp
    show ?thesis
    proof (cases fallbackStrategy)
      case None
      with run show ?thesis
        by (intro failure)
          (simp add: resolveConflict_def tryResolve_no_fallback noStrategyMatched_def)
    next
      case (Some strategy)
      show ?thesis
      proof (cases "applyFallbackStrategy repo fs conflict strategy")
        case (Inl e)
        with run Some show ?thesis
          by (intro failure) (simp add: resolveConflict_def tryResolve_fallback)
      next
        case (Inr fc)
        show ?thesis
        proof (cases fc)
          case None
          with run Some Inr show ?thesis
            by (intro failure)
              (simp add: resolveConflict_def tryResolve_fallback noStrategyMatched_def)
        next
          case fcSome: (Some fallbackContent)
          show ?thesis
          proof (cases "fallbackContent = []")
            case True
            with run Some Inr fcSome show ?thesis
              by (intro failure)
                (simp add: resolveConflict_def tryResolve_fallback noStrategyMatched_def)
          next
            case False
            show ?thesis
            proof (cases "writeResolvedFile repo dryRun fs (conflictFile conflict) fallbackContent")
              case (Inl e)
              with run Some Inr fcSome False show ?thesis
                by (intro failure) (simp add: resolveConflict_def tryResolve_fallback)
            next
              case w: (Inr fs')
              with run Some Inr fcSome False show ?thesis
                by (intro fallback [of strategy fallbackContent fs'])
                  (simp_all add: resolveConflict_def tryResolve_fallback)
            qed
          qed
        qed
      qed
    qed
  qed
qed

text \<open>
  A run over a list followed by another is the fold of the steps of the second list from
  the state the first list leaves.  A step only appends to the lists of the result and
  never sets \<^verbatim>\<open>success\<close> back to true, so the result of a run extends the result at each
  of its earlier points.  A dry run never writes: it leaves the file system as it is.
\<close>

lemma autoResolveConflicts_append:
  "autoResolveConflicts repo registry fs (conflicts @ rest) dryRun fallback
   = foldl (resolveConflict repo (getConflictResolutionPlugins registry) dryRun
              (if fallback = NoFallback then None else Some fallback))
       (autoResolveConflicts repo registry fs conflicts dryRun fallback) rest"
  by (simp add: autoResolveConflicts_def Let_def)

lemma resultExtends_refl: "resultExtends r r"
  by (simp add: resultExtends_def)

lemma resultExtends_trans:
  "resultExtends r r' \<Longrightarrow> resultExtends r' r'' \<Longrightarrow> resultExtends r r''"
  unfolding resultExtends_def by (meson prefix_order.trans)

lemma resolveConflict_extends:
  "resultExtends res (fst (resolveConflict repo plugins dryRun fallbackStrategy (res, fs) conflict))"
  by (cases rule: resolveConflict_outcome
        [of conflict plugins repo fs dryRun fallbackStrategy res])
     (simp_all add: resultExtends_def)

lemma foldl_resolveConflict_extends:
  "resultExtends res
     (fst (foldl (resolveConflict repo plugins dryRun fallbackStrategy) (res, fs) conflicts))"
proof (induction conflicts arbitrary: res fs)
  case Nil
  show ?case by (simp add: resultExtends_refl)
next
  case (Cons c cs)
  obtain res' fs' where
    step: "resolveConflict repo plugins dryRun fallbackStrategy (res, fs) c = (res', fs')"
    by (cases "resolveConflict repo plugins dryRun fallbackStrategy (res, fs) c")
  from resolveConflict_extends [of res repo plugins dryRun fallbackStrategy fs c] step
  have "resultExtends res res'" by simp
  with Cons.IH [of res' fs'] step show ?case
    by (simp add: resultExtends_trans)
qed

lemma writeResolvedFile_dry: "writeResolvedFile repo True fs path text = Inr fs"
  by (simp add: writeResolvedFile_def)

lemma resolveConflict_dry_fs:
  "snd (resolveConflict repo plugins True fallbackStrategy (res, fs) conflict) = fs"
  by (cases rule: resolveConflict_outcome
        [of conflict plugins repo fs True fallbackStrategy res])
     (simp_all add: writeResolvedFile_dry)

lemma foldl_resolveConflict_dry_fs:
  "snd (foldl (resolveConflict repo plugins True fallbackStrategy) (res, fs) conflicts) = fs"
proof (induction conflicts arbitrary: res)
  case Nil
  show ?case by simp
next
  case (Cons c cs)
  obtain res' where "resolveConflict repo plugins True fallbackStrategy (res, fs) c = (res', fs)"
    using resolveConflict_dry_fs [of repo plugins fallbackStrategy res fs c]
    by (cases "resolveConflict repo plugins True fallbackStrategy (res, fs) c") simp
  with Cons.IH [of res'] show ?case by simp
qed

lemma autoResolveConflicts_dry_fs:
  "snd (autoResolveConflicts repo registry fs conflicts True fallback) = fs"
  by (simp add: autoResolveConflicts_def Let_def foldl_resolveConflict_dry_fs)

text \<open>
  An exception thrown by the first plugin that supports the conflict is the outcome of the
  pipeline, and the \<^verbatim>\<open>catch\<close> block records it.
\<close>

lemma runPlugins_throws:
  assumes "list_all (\<lambda>q. \<not> supports q conflict \<or> resolve q conflict context = Inr None) pre"
    and "supports plugin conflict"
    and "resolve plugin conflict context = Inl e"
  shows "runPlugins conflict (pre @ plugin # post) context = Inl e"
  using assms by (induction pre) auto

lemma resolveConflict_plugin_throws:
  "runPlugins conflict plugins (createContext repo fs) = Inl e \<Longrightarrow>
   resolveConflict repo plugins dryRun fallbackStrategy (res, fs) conflict
   = (res\<lparr>failedFiles := failedFiles res @ [conflictFile conflict],
          errors := errors res @
            [''Failed to resolve '' @ conflictFile conflict @ '': '' @ errorToString e],
          success := False\<rparr>,
      fs)"
  by (simp add: resolveConflict_def tryResolve_plugin_throws)

text \<open>
  The simple-content plugin itself never throws its "could not compute replacement" error:
  \<^verbatim>\<open>supports\<close> and \<^verbatim>\<open>resolve\<close> compute the same replacements, so when it supports a
  conflict whose file can be read, it resolves it.
\<close>

lemma replaceBlocksLoop_returns:
  assumes "\<forall>i < length hs. \<exists>r. replacer (k + i) = Inr r"
  shows "\<exists>res. replaceBlocksLoop replacer hs k acc = Inr res"
  using assms
proof (induction hs arbitrary: k acc)
  case Nil
  show ?case by simp
next
  case (Cons h hs)
  from Cons.prems have "\<exists>r. replacer k = Inr r" by force
  then obtain r where r: "replacer k = Inr r" ..
  have "\<forall>i < length hs. \<exists>r. replacer (Suc k + i) = Inr r"
  proof (intro allI impI)
    fix i assume "i < length hs"
    then have "Suc i < length (h # hs)" by simp
    with Cons.prems have "\<exists>r. replacer (k + Suc i) = Inr r" by blast
    then show "\<exists>r. replacer (Suc k + i) = Inr r" by simp
  qed
  from Cons.IH [OF this] r show ?case by simp
qed

lemma simpleContentPlugin_no_contract_violation:
  assumes "supports simpleContentPlugin conflict"
    and "readFile context (conflictFile conflict) = Inr t0"
  shows "\<exists>resolution. resolve simpleContentPlugin conflict context = Inr (Some resolution)"
proof -
  from assms(1) have all: "list_all
             (\<lambda>index. case computeContentReplacement conflict index of
                         Inr (Some replacement) \<Rightarrow> True
                       | Inr None \<Rightarrow> False
                       | Inl e \<Rightarrow> False)
             [0 ..< length (hunks conflict)]"
    by (simp add: simpleContentPlugin_def simpleContentSupports_def split: if_splits)
  have "\<forall>i < length (hunks conflict). \<exists>r. simpleContentReplacer conflict (0 + i) = Inr r"
  proof (intro allI impI)
    fix i assume "i < length (hunks conflict)"
    with all have "case computeContentReplacement conflict i of
                         Inr (Some replacement) \<Rightarrow> True
                       | Inr None \<Rightarrow> False
                       | Inl e \<Rightarrow> False"
      by (simp add: list_all_iff)
    then show "\<exists>r. simpleContentReplacer conflict (0 + i) = Inr r"
      by (simp add: simpleContentReplacer_def split: sum.splits option.splits)
  qed
  from replaceBlocksLoop_returns [OF this, of "(t0, [])"]
  obtain res where "replaceBlocksLoop (simpleContentReplacer conflict) (hunks conflict) 0 (t0, []) = Inr res"
    by blast
  with assms(2) show ?thesis
    by (cases res) (simp add: simpleContentPlugin_def replaceConflictBlocks_def)
qed

text \<open>
  C4 (as the code has it).  When the first plugin of the ordered view that supports a
  conflict throws in \<^verbatim>\<open>resolve\<close> (the plugins before it do not support the conflict or
  decline), the run does not throw.  The \<^verbatim>\<open>catch\<close> block of the loop adds the file to
  \<^verbatim>\<open>failedFiles\<close>, adds the message "Failed to resolve", the file and the error to
  \<^verbatim>\<open>errors\<close>, sets \<^verbatim>\<open>success\<close> to false, and leaves every file as it is; no fallback is
  tried for the conflict.  The run then goes on: its result is that of the steps of the
  conflicts that follow, taken from that state, so it keeps those two entries and ends with
  \<^verbatim>\<open>success\<close> false.
\<close>

theorem autoResolveConflicts_plugin_throw_captured:
  fixes repo registry fs earlier conflict later dryRun fallback res fs1 pre plugin post e
    and captured :: ResolutionResult
  assumes "autoResolveConflicts repo registry fs earlier dryRun fallback = (res, fs1)"
    and "getConflictResolutionPlugins registry = pre @ plugin # post"
    and "list_all (\<lambda>q. \<not> supports q conflict
                      \<or> resolve q conflict (createContext repo fs1) = Inr None) pre"
    and "supports plugin conflict"
    and "resolve plugin conflict (createContext repo fs1) = Inl e"
  defines "captured \<equiv>
             res\<lparr>failedFiles := failedFiles res @ [conflictFile conflict],
                 errors := errors res @
                   [''Failed to resolve '' @ conflictFile conflict @ '': '' @ errorToString e],
                 success := False\<rparr>"
  shows "autoResolveConflicts repo registry fs (earlier @ [conflict]) dryRun fallback
         = (captured, fs1)
       \<and> autoResolveConflicts repo registry fs (earlier @ conflict # later) dryRun fallback
         = foldl (resolveConflict repo (getConflictResolutionPlugins registry) dryRun
                    (if fallback = NoFallback then None else Some fallback))
             (captured, fs1) later
       \<and> resultExtends captured
           (fst (autoResolveConflicts repo registry fs (earlier @ conflict # later) dryRun fallback))
       \<and> \<not> success
           (fst (autoResolveConflicts repo registry fs (earlier @ conflict # later) dryRun fallback))"
proof -
  have "runPlugins conflict (getConflictResolutionPlugins registry) (createContext repo fs1) = Inl e"
    unfolding assms(2) using assms(3-5) by (rule runPlugins_throws)
  then have one: "autoResolveConflicts repo registry fs (earlier @ [conflict]) dryRun fallback
                  = (captured, fs1)"
    by (simp add: autoResolveConflicts_snoc assms(1) resolveConflict_plugin_throws captured_def)
  have "autoResolveConflicts repo registry fs ((earlier @ [conflict]) @ later) dryRun fallback
         = foldl (resolveConflict repo (getConflictResolutionPlugins registry) dryRun
                    (if fallback = NoFallback then None else Some fallback))
             (autoResolveConflicts repo registry fs (earlier @ [conflict]) dryRun fallback) later"
    by (rule autoResolveConflicts_append)
  then have all: "autoResolveConflicts repo registry fs (earlier @ conflict # later) dryRun fallback
         = foldl (resolveConflict repo (getConflictResolutionPlugins registry) dryRun
                    (if fallback = NoFallback then None else Some fallback))
             (captured, fs1) later"
    by (simp add: one)
  have ext: "resultExtends captured
           (fst (autoResolveConflicts repo registry fs (earlier @ conflict # later) dryRun fallback))"
    unfolding all by (rule foldl_resolveConflict_extends)
  then have "\<not> success
           (fst (autoResolveConflicts repo registry fs (earlier @ conflict # later) dryRun fallback))"
    by (simp add: resultExtends_def captured_def)
  with one all ext show ?thesis by simp
qed

theorem autoResolveConflicts_plugin_throw_captured_witness:
  "fst (autoResolveConflicts ''/repo'' (builtinRegistry (\<lambda>a b. 0))
     \<lparr>fileContents =
        [''/repo/b.txt'' \<mapsto> ''<<<<<<< HEAD\<newline>one\<newline>=======\<newline>two\<newline>>>>>>>> br\<newline>''],
      writable = (\<lambda>p. True), stagedFiles = []\<rparr>
     [analyzeFileConflict ''gone.txt''
        ''<<<<<<< HEAD\<newline>a  b\<newline>=======\<newline>a b\<newline>>>>>>>> br\<newline>'',
      analyzeFileConflict ''b.txt''
        ''<<<<<<< HEAD\<newline>one\<newline>=======\<newline>two\<newline>>>>>>>> br\<newline>'']
     False Incoming)
   = \<lparr>success = False, resolvedFiles = [''b.txt''], failedFiles = [''gone.txt''],
      errors = [''Failed to resolve gone.txt: Error: ENOENT: no such file or directory, open '' @ [CHR 0x27] @ ''/repo/gone.txt'' @ [CHR 0x27]],
      fallbackApplied = [(''b.txt'', Incoming)],
      warnings = [''Applied fallback strategy \"incoming\" to b.txt. Review before committing.''],
      resultNotes = [], resolvedBy = []\<rparr>"
proof -
  define reg where "reg = builtinRegistry (\<lambda>a b. 0)"
  define fs0 where "fs0 = \<lparr>fileContents =
        [''/repo/b.txt'' \<mapsto> ''<<<<<<< HEAD\<newline>one\<newline>=======\<newline>two\<newline>>>>>>>> br\<newline>''],
      writable = (\<lambda>p. True), stagedFiles = []\<rparr>"
  define g where "g = analyzeFileConflict ''gone.txt''
        ''<<<<<<< HEAD\<newline>a  b\<newline>=======\<newline>a b\<newline>>>>>>>> br\<newline>''"
  define b where "b = analyzeFileConflict ''b.txt''
        ''<<<<<<< HEAD\<newline>one\<newline>=======\<newline>two\<newline>>>>>>>> br\<newline>''"
  have view: "getConflictResolutionPlugins reg
      = [] @ whitespacePlugin # [importPlugin (\<lambda>a b. 0), simpleContentPlugin]"
    by (simp add: reg_def getConflictResolutionPlugins_def builtinRegistry_def builtinPlugins_def
        registerConflictResolutionPlugin_def arraySort_def priorityOrDefault_def
        whitespacePlugin_def importPlugin_def simpleContentPlugin_def)
  have skip: "list_all (\<lambda>q. \<not> supports q g \<or> resolve q g (createContext ''/repo'' fs0) = Inr None) []"
    by simp
  have "conflictType g = WHITESPACE" unfolding g_def by code_simp
  then have sup: "supports whitespacePlugin g" by (simp add: whitespacePlugin_def)
  have thr: "resolve whitespacePlugin g (createContext ''/repo'' fs0) = Inl (ENOENT ''/repo/gone.txt'')"
    unfolding g_def fs0_def by code_simp
  have start: "autoResolveConflicts ''/repo'' reg fs0 [] False Incoming = (emptyResult, fs0)"
    by (simp add: autoResolveConflicts_def)
  have gfile: "conflictFile g = ''gone.txt''" unfolding g_def by code_simp
  have rest: "fst (foldl (resolveConflict ''/repo'' (getConflictResolutionPlugins reg) False (Some Incoming))
        (\<lparr>success = False, resolvedFiles = [], failedFiles = [''gone.txt''],
          errors = [''Failed to resolve gone.txt: Error: ENOENT: no such file or directory, open '' @ [CHR 0x27] @ ''/repo/gone.txt'' @ [CHR 0x27]],
          fallbackApplied = [], warnings = [], resultNotes = [], resolvedBy = []\<rparr>, fs0) [b])
      = \<lparr>success = False, resolvedFiles = [''b.txt''], failedFiles = [''gone.txt''],
      errors = [''Failed to resolve gone.txt: Error: ENOENT: no such file or directory, open '' @ [CHR 0x27] @ ''/repo/gone.txt'' @ [CHR 0x27]],
      fallbackApplied = [(''b.txt'', Incoming)],
      warnings = [''Applied fallback strategy \"incoming\" to b.txt. Review before committing.''],
      resultNotes = [], resolvedBy = []\<rparr>"
    unfolding reg_def fs0_def b_def by code_simp
  have "fst (autoResolveConflicts ''/repo'' reg fs0 [g, b] False Incoming)
        = \<lparr>success = False, resolvedFiles = [''b.txt''], failedFiles = [''gone.txt''],
      errors = [''Failed to resolve gone.txt: Error: ENOENT: no such file or directory, open '' @ [CHR 0x27] @ ''/repo/gone.txt'' @ [CHR 0x27]],
      fallbackApplied = [(''b.txt'', Incoming)],
      warnings = [''Applied fallback strategy \"incoming\" to b.txt. Review before committing.''],
      resultNotes = [], resolvedBy = []\<rparr>"
    using autoResolveConflicts_plugin_throw_captured [OF start view skip sup thr, of "[b]"] rest
    by (simp add: emptyResult_def errorToString_def gfile)
  then show ?thesis unfolding reg_def fs0_def g_def b_def .
qed

text \<open>
  The claim as written fails: the registry below holds the builtin plugins and a plugin
  that supports STRUCTURAL conflicts and throws in \<^verbatim>\<open>resolve\<close>.  The run over two conflicts
  returns a result; the error of the first is in \<^verbatim>\<open>errors\<close> and its file in
  \<^verbatim>\<open>failedFiles\<close>, and the second conflict is still processed.
\<close>

theorem autoResolveConflicts_plugin_throw_counterexample:
  "fst (autoResolveConflicts ''/repo''
     (registerConflictResolutionPlugin (builtinRegistry (\<lambda>a b. 0))
        \<lparr>pluginName = ''broken'', priority = None,
         supports = (\<lambda>c. conflictType c = STRUCTURAL),
         resolve = (\<lambda>c ctx. Inl (Error ''boom''))\<rparr>)
     \<lparr>fileContents =
        [''/repo/a.ts'' \<mapsto> ''<<<<<<< HEAD\<newline>class A {}\<newline>=======\<newline>class B {}\<newline>>>>>>>> br\<newline>'',
         ''/repo/b.txt'' \<mapsto> ''<<<<<<< HEAD\<newline>one\<newline>=======\<newline>two\<newline>>>>>>>> br\<newline>''],
      writable = (\<lambda>p. True), stagedFiles = []\<rparr>
     [analyzeFileConflict ''a.ts''
        ''<<<<<<< HEAD\<newline>class A {}\<newline>=======\<newline>class B {}\<newline>>>>>>>> br\<newline>'',
      analyzeFileConflict ''b.txt''
        ''<<<<<<< HEAD\<newline>one\<newline>=======\<newline>two\<newline>>>>>>>> br\<newline>'']
     False Incoming)
   = \<lparr>success = False, resolvedFiles = [''b.txt''], failedFiles = [''a.ts''],
      errors = [''Failed to resolve a.ts: Error: boom''],
      fallbackApplied = [(''b.txt'', Incoming)],
      warnings = [''Applied fallback strategy \"incoming\" to b.txt. Review before committing.''],
      resultNotes = [], resolvedBy = []\<rparr>"
  by code_simp

text \<open>
  At every point of a run, each warning is the warning of one fallback entry, in the same
  order; each resolved file is counted once, by an entry of \<^verbatim>\<open>resolvedBy\<close> or by an entry
  of \<^verbatim>\<open>fallbackApplied\<close>; and every fallback entry carries the run's strategy, which is
  not \<^verbatim>\<open>none\<close>.
\<close>

lemma autoResolveConflicts_invariant:
  fixes repo registry fs conflicts dryRun fallback and r :: ResolutionResult
  defines "r \<equiv> fst (autoResolveConflicts repo registry fs conflicts dryRun fallback)"
  shows "warnings r = map (\<lambda>(f, strategy). fallbackWarning strategy f) (fallbackApplied r)
       \<and> mset (resolvedFiles r)
           = mset (map resolvedFile (resolvedBy r)) + mset (map fst (fallbackApplied r))
       \<and> list_all (\<lambda>(f, strategy). strategy = fallback \<and> strategy \<noteq> NoFallback) (fallbackApplied r)"
  unfolding r_def
proof (induction conflicts rule: rev_induct)
  case Nil
  show ?case by (simp add: autoResolveConflicts_Nil emptyResult_def)
next
  case (snoc conflict conflicts)
  obtain res fs1 where st: "autoResolveConflicts repo registry fs conflicts dryRun fallback = (res, fs1)"
    by (cases "autoResolveConflicts repo registry fs conflicts dryRun fallback")
  let ?step = "resolveConflict repo (getConflictResolutionPlugins registry) dryRun
       (if fallback = NoFallback then None else Some fallback) (res, fs1) conflict"
  have next_eq: "autoResolveConflicts repo registry fs (conflicts @ [conflict]) dryRun fallback = ?step"
    by (simp add: autoResolveConflicts_snoc st)
  from snoc.IH st
  have ih: "warnings res = map (\<lambda>(f, strategy). fallbackWarning strategy f) (fallbackApplied res)"
      "mset (resolvedFiles res)
           = mset (map resolvedFile (resolvedBy res)) + mset (map fst (fallbackApplied res))"
      "list_all (\<lambda>(f, strategy). strategy = fallback \<and> strategy \<noteq> NoFallback) (fallbackApplied res)"
    by simp_all
  show ?case
  proof (cases rule: resolveConflict_outcome
      [of conflict "getConflictResolutionPlugins registry" repo fs1 dryRun
        "if fallback = NoFallback then None else Some fallback" res])
    case (plugin out fs')
    with ih show ?thesis by (simp add: next_eq)
  next
    case (fallback strategy fallbackContent fs')
    from fallback(1) have "strategy = fallback \<and> fallback \<noteq> NoFallback"
      by (simp split: if_splits)
    with fallback ih show ?thesis by (simp add: next_eq)
  next
    case (failure msg)
    with ih show ?thesis by (simp add: next_eq)
  qed
qed

text \<open>
  C6.  Take any run and any conflict of it; let \<^verbatim>\<open>res\<close> be the result and \<^verbatim>\<open>fs1\<close> the file
  system when the conflict's turn comes, and \<^verbatim>\<open>r1\<close> the result after its step.  If the
  plugin pipeline returns an outcome (and the write, when there is one, succeeds), the step
  adds one entry for the file and the plugin to \<^verbatim>\<open>resolvedBy\<close>, and \<^verbatim>\<open>fallbackApplied\<close>
  and \<^verbatim>\<open>warnings\<close> are unchanged.  If no plugin resolves it, the strategy is not
  \<^verbatim>\<open>none\<close> and the fallback returns a text that is not empty (and the write succeeds), the
  step adds one entry to \<^verbatim>\<open>fallbackApplied\<close> and its warning to \<^verbatim>\<open>warnings\<close>, and
  \<^verbatim>\<open>resolvedBy\<close> is unchanged.  In every other case the file is added to \<^verbatim>\<open>failedFiles\<close>
  and none of the three lists changes.  The final result of the run extends \<^verbatim>\<open>r1\<close>, so it
  keeps these entries; in it the warnings are the warnings of the fallback entries, and the
  resolved files are those of \<^verbatim>\<open>resolvedBy\<close> and those of \<^verbatim>\<open>fallbackApplied\<close> together,
  each counted once.
\<close>

theorem autoResolveConflicts_fallback_distinguishable:
  fixes repo registry fs earlier conflict later dryRun fallback
    and plugins :: "ConflictResolutionPlugin list"
    and res r1 final :: ResolutionResult
    and fs1 :: FileSystem
  defines "plugins \<equiv> getConflictResolutionPlugins registry"
    and "res \<equiv> fst (autoResolveConflicts repo registry fs earlier dryRun fallback)"
    and "fs1 \<equiv> snd (autoResolveConflicts repo registry fs earlier dryRun fallback)"
    and "r1 \<equiv> fst (autoResolveConflicts repo registry fs (earlier @ [conflict]) dryRun fallback)"
    and "final \<equiv>
           fst (autoResolveConflicts repo registry fs (earlier @ conflict # later) dryRun fallback)"
  shows "(\<forall>out fs'.
            runPlugins conflict plugins (createContext repo fs1) = Inr (Some out)
            \<and> writeResolvedFile repo dryRun fs1 (conflictFile conflict) (outcomeContent out) = Inr fs'
            \<longrightarrow> resolvedBy r1 = resolvedBy res @
                    [\<lparr>resolvedFile = conflictFile conflict,
                      resolvedPlugin = pluginName (outcomePlugin out),
                      resolvedNotes = outcomeNotes out\<rparr>]
                \<and> resolvedFiles r1 = resolvedFiles res @ [conflictFile conflict]
                \<and> fallbackApplied r1 = fallbackApplied res
                \<and> warnings r1 = warnings res
                \<and> failedFiles r1 = failedFiles res)
       \<and> (\<forall>content fs'.
            runPlugins conflict plugins (createContext repo fs1) = Inr None
            \<and> fallback \<noteq> NoFallback
            \<and> applyFallbackStrategy repo fs1 conflict fallback = Inr (Some content)
            \<and> content \<noteq> []
            \<and> writeResolvedFile repo dryRun fs1 (conflictFile conflict) content = Inr fs'
            \<longrightarrow> fallbackApplied r1 = fallbackApplied res @ [(conflictFile conflict, fallback)]
                \<and> warnings r1 = warnings res @ [fallbackWarning fallback (conflictFile conflict)]
                \<and> resolvedFiles r1 = resolvedFiles res @ [conflictFile conflict]
                \<and> resolvedBy r1 = resolvedBy res
                \<and> failedFiles r1 = failedFiles res)
       \<and> (\<not> (\<exists>out fs'.
                runPlugins conflict plugins (createContext repo fs1) = Inr (Some out)
                \<and> writeResolvedFile repo dryRun fs1 (conflictFile conflict) (outcomeContent out)
                    = Inr fs')
          \<and> \<not> (\<exists>content fs'.
                runPlugins conflict plugins (createContext repo fs1) = Inr None
                \<and> fallback \<noteq> NoFallback
                \<and> applyFallbackStrategy repo fs1 conflict fallback = Inr (Some content)
                \<and> content \<noteq> []
                \<and> writeResolvedFile repo dryRun fs1 (conflictFile conflict) content = Inr fs')
          \<longrightarrow> failedFiles r1 = failedFiles res @ [conflictFile conflict]
              \<and> \<not> success r1
              \<and> resolvedFiles r1 = resolvedFiles res
              \<and> resolvedBy r1 = resolvedBy res
              \<and> fallbackApplied r1 = fallbackApplied res
              \<and> warnings r1 = warnings res)
       \<and> resultExtends r1 final
       \<and> warnings final = map (\<lambda>(f, strategy). fallbackWarning strategy f) (fallbackApplied final)
       \<and> mset (resolvedFiles final)
           = mset (map resolvedFile (resolvedBy final)) + mset (map fst (fallbackApplied final))"
proof -
  let ?fb = "if fallback = NoFallback then None else Some fallback"
  have st: "autoResolveConflicts repo registry fs earlier dryRun fallback = (res, fs1)"
    by (simp add: res_def fs1_def)
  have r1: "r1 = fst (resolveConflict repo plugins dryRun ?fb (res, fs1) conflict)"
    by (simp add: r1_def autoResolveConflicts_snoc st plugins_def)
  have byPlugin: "resolvedBy r1 = resolvedBy res @
                    [\<lparr>resolvedFile = conflictFile conflict,
                      resolvedPlugin = pluginName (outcomePlugin out),
                      resolvedNotes = outcomeNotes out\<rparr>]
                \<and> resolvedFiles r1 = resolvedFiles res @ [conflictFile conflict]
                \<and> fallbackApplied r1 = fallbackApplied res
                \<and> warnings r1 = warnings res
                \<and> failedFiles r1 = failedFiles res"
    if "runPlugins conflict plugins (createContext repo fs1) = Inr (Some out)"
      and "writeResolvedFile repo dryRun fs1 (conflictFile conflict) (outcomeContent out) = Inr fs'"
    for out fs'
    using that by (simp add: r1 resolveConflict_def tryResolve_plugin_resolves)
  have byFallback: "fallbackApplied r1 = fallbackApplied res @ [(conflictFile conflict, fallback)]
                \<and> warnings r1 = warnings res @ [fallbackWarning fallback (conflictFile conflict)]
                \<and> resolvedFiles r1 = resolvedFiles res @ [conflictFile conflict]
                \<and> resolvedBy r1 = resolvedBy res
                \<and> failedFiles r1 = failedFiles res"
    if "runPlugins conflict plugins (createContext repo fs1) = Inr None"
      and "fallback \<noteq> NoFallback"
      and "applyFallbackStrategy repo fs1 conflict fallback = Inr (Some content)"
      and "content \<noteq> []"
      and "writeResolvedFile repo dryRun fs1 (conflictFile conflict) content = Inr fs'"
    for content fs'
    using that by (simp add: r1 resolveConflict_def tryResolve_fallback)
  have failed: "failedFiles r1 = failedFiles res @ [conflictFile conflict]
              \<and> \<not> success r1
              \<and> resolvedFiles r1 = resolvedFiles res
              \<and> resolvedBy r1 = resolvedBy res
              \<and> fallbackApplied r1 = fallbackApplied res
              \<and> warnings r1 = warnings res"
    if np: "\<not> (\<exists>out fs'.
                runPlugins conflict plugins (createContext repo fs1) = Inr (Some out)
                \<and> writeResolvedFile repo dryRun fs1 (conflictFile conflict) (outcomeContent out)
                    = Inr fs')"
      and nf: "\<not> (\<exists>content fs'.
                runPlugins conflict plugins (createContext repo fs1) = Inr None
                \<and> fallback \<noteq> NoFallback
                \<and> applyFallbackStrategy repo fs1 conflict fallback = Inr (Some content)
                \<and> content \<noteq> []
                \<and> writeResolvedFile repo dryRun fs1 (conflictFile conflict) content = Inr fs')"
  proof (cases rule: resolveConflict_outcome [of conflict plugins repo fs1 dryRun ?fb res])
    case (plugin out fs')
    with np show ?thesis by blast
  next
    case (fallback strategy fallbackContent fs')
    from fallback(1) have "strategy = fallback \<and> fallback \<noteq> NoFallback"
      by (simp split: if_splits)
    with fallback nf show ?thesis by blast
  next
    case (failure msg)
    then show ?thesis by (simp add: r1)
  qed
  have "autoResolveConflicts repo registry fs ((earlier @ [conflict]) @ later) dryRun fallback
        = foldl (resolveConflict repo plugins dryRun ?fb)
            (autoResolveConflicts repo registry fs (earlier @ [conflict]) dryRun fallback) later"
    unfolding plugins_def by (rule autoResolveConflicts_append)
  then have "final = fst (foldl (resolveConflict repo plugins dryRun ?fb)
            (r1, snd (autoResolveConflicts repo registry fs (earlier @ [conflict]) dryRun fallback))
            later)"
    by (simp add: final_def r1_def)
  then have ext: "resultExtends r1 final"
    by (simp add: foldl_resolveConflict_extends)
  from autoResolveConflicts_invariant [of repo registry fs "earlier @ conflict # later" dryRun fallback]
  have inv: "warnings final = map (\<lambda>(f, strategy). fallbackWarning strategy f) (fallbackApplied final)"
    "mset (resolvedFiles final)
         = mset (map resolvedFile (resolvedBy final)) + mset (map fst (fallbackApplied final))"
    by (simp_all add: final_def)
  from byPlugin byFallback failed ext inv show ?thesis by blast
qed

theorem autoResolveConflicts_fallback_distinguishable_witness:
  "resolvedBy
     (fst (autoResolveConflicts ''/repo'' (builtinRegistry (\<lambda>a b. 0))
       \<lparr>fileContents =
          [''/repo/a.txt'' \<mapsto> ''<<<<<<< HEAD\<newline>a  b\<newline>=======\<newline>a b\<newline>>>>>>>> br\<newline>'',
           ''/repo/b.txt'' \<mapsto> ''<<<<<<< HEAD\<newline>one\<newline>=======\<newline>two\<newline>>>>>>>> br\<newline>''],
        writable = (\<lambda>p. True), stagedFiles = []\<rparr>
       [analyzeFileConflict ''a.txt''
          ''<<<<<<< HEAD\<newline>a  b\<newline>=======\<newline>a b\<newline>>>>>>>> br\<newline>'']
       True Incoming))
   = [\<lparr>resolvedFile = ''a.txt'', resolvedPlugin = ''whitespace-normalizer'',
         resolvedNotes = Some [''Normalized whitespace differences'']\<rparr>]
   \<and> fallbackApplied
     (fst (autoResolveConflicts ''/repo'' (builtinRegistry (\<lambda>a b. 0))
       \<lparr>fileContents =
          [''/repo/a.txt'' \<mapsto> ''<<<<<<< HEAD\<newline>a  b\<newline>=======\<newline>a b\<newline>>>>>>>> br\<newline>'',
           ''/repo/b.txt'' \<mapsto> ''<<<<<<< HEAD\<newline>one\<newline>=======\<newline>two\<newline>>>>>>>> br\<newline>''],
        writable = (\<lambda>p. True), stagedFiles = []\<rparr>
       [analyzeFileConflict ''a.txt''
          ''<<<<<<< HEAD\<newline>a  b\<newline>=======\<newline>a b\<newline>>>>>>>> br\<newline>'']
       True Incoming))
   = []
   \<and> resolvedBy
     (fst (autoResolveConflicts ''/repo'' (builtinRegistry (\<lambda>a b. 0))
       \<lparr>fileContents =
          [''/repo/a.txt'' \<mapsto> ''<<<<<<< HEAD\<newline>a  b\<newline>=======\<newline>a b\<newline>>>>>>>> br\<newline>'',
           ''/repo/b.txt'' \<mapsto> ''<<<<<<< HEAD\<newline>one\<newline>=======\<newline>two\<newline>>>>>>>> br\<newline>''],
        writable = (\<lambda>p. True), stagedFiles = []\<rparr>
       [analyzeFileConflict ''a.txt''
          ''<<<<<<< HEAD\<newline>a  b\<newline>=======\<newline>a b\<newline>>>>>>>> br\<newline>'',
        analyzeFileConflict ''b.txt''
          ''<<<<<<< HEAD\<newline>one\<newline>=======\<newline>two\<newline>>>>>>>> br\<newline>'']
       True Incoming))
   = [\<lparr>resolvedFile = ''a.txt'', resolvedPlugin = ''whitespace-normalizer'',
         resolvedNotes = Some [''Normalized whitespace differences'']\<rparr>]
   \<and> fallbackApplied
     (fst (autoResolveConflicts ''/repo'' (builtinRegistry (\<lambda>a b. 0))
       \<lparr>fileContents =
          [''/repo/a.txt'' \<mapsto> ''<<<<<<< HEAD\<newline>a  b\<newline>=======\<newline>a b\<newline>>>>>>>> br\<newline>'',
           ''/repo/b.txt'' \<mapsto> ''<<<<<<< HEAD\<newline>one\<newline>=======\<newline>two\<newline>>>>>>>> br\<newline>''],
        writable = (\<lambda>p. True), stagedFiles = []\<rparr>
       [analyzeFileConflict ''a.txt''
          ''<<<<<<< HEAD\<newline>a  b\<newline>=======\<newline>a b\<newline>>>>>>>> br\<newline>'',
        analyzeFileConflict ''b.txt''
          ''<<<<<<< HEAD\<newline>one\<newline>=======\<newline>two\<newline>>>>>>>> br\<newline>'']
       True Incoming))
   = [(''b.txt'', Incoming)]
   \<and> warnings
     (fst (autoResolveConflicts ''/repo'' (builtinRegistry (\<lambda>a b. 0))
       \<lparr>fileContents =
          [''/repo/a.txt'' \<mapsto> ''<<<<<<< HEAD\<newline>a  b\<newline>=======\<newline>a b\<newline>>>>>>>> br\<newline>'',
           ''/repo/b.txt'' \<mapsto> ''<<<<<<< HEAD\<newline>one\<newline>=======\<newline>two\<newline>>>>>>>> br\<newline>''],
        writable = (\<lambda>p. True), stagedFiles = []\<rparr>
       [analyzeFileConflict ''a.txt''
          ''<<<<<<< HEAD\<newline>a  b\<newline>=======\<newline>a b\<newline>>>>>>>> br\<newline>'',
        analyzeFileConflict ''b.txt''
          ''<<<<<<< HEAD\<newline>one\<newline>=======\<newline>two\<newline>>>>>>>> br\<newline>'']
       True Incoming))
   = [''Applied fallback strategy \"incoming\" to b.txt. Review before committing.'']
   \<and> failedFiles
     (fst (autoResolveConflicts ''/repo'' (builtinRegistry (\<lambda>a b. 0))
       \<lparr>fileContents =
          [''/repo/a.txt'' \<mapsto> ''<<<<<<< HEAD\<newline>a  b\<newline>=======\<newline>a b\<newline>>>>>>>> br\<newline>'',
           ''/repo/b.txt'' \<mapsto> ''<<<<<<< HEAD\<newline>one\<newline>=======\<newline>two\<newline>>>>>>>> br\<newline>''],
        writable = (\<lambda>p. True), stagedFiles = []\<rparr>
       [analyzeFileConflict ''a.txt''
          ''<<<<<<< HEAD\<newline>a  b\<newline>=======\<newline>a b\<newline>>>>>>>> br\<newline>'',
        analyzeFileConflict ''b.txt''
          ''<<<<<<< HEAD\<newline>one\<newline>=======\<newline>two\<newline>>>>>>>> br\<newline>'',
        analyzeFileConflict ''gone.txt''
          ''<<<<<<< HEAD\<newline>one\<newline>=======\<newline>two\<newline>>>>>>>> br\<newline>'']
       True Incoming))
   = [''gone.txt'']
   \<and> resolvedFiles
     (fst (autoResolveConflicts ''/repo'' (builtinRegistry (\<lambda>a b. 0))
       \<lparr>fileContents =
          [''/repo/a.txt'' \<mapsto> ''<<<<<<< HEAD\<newline>a  b\<newline>=======\<newline>a b\<newline>>>>>>>> br\<newline>'',
           ''/repo/b.txt'' \<mapsto> ''<<<<<<< HEAD\<newline>one\<newline>=======\<newline>two\<newline>>>>>>>> br\<newline>''],
        writable = (\<lambda>p. True), stagedFiles = []\<rparr>
       [analyzeFileConflict ''a.txt''
          ''<<<<<<< HEAD\<newline>a  b\<newline>=======\<newline>a b\<newline>>>>>>>> br\<newline>'',
        analyzeFileConflict ''b.txt''
          ''<<<<<<< HEAD\<newline>one\<newline>=======\<newline>two\<newline>>>>>>>> br\<newline>'',
        analyzeFileConflict ''gone.txt''
          ''<<<<<<< HEAD\<newline>one\<newline>=======\<newline>two\<newline>>>>>>>> br\<newline>'']
       True Incoming))
   = [''a.txt'', ''b.txt'']" 
proof -
  define reg where "reg = builtinRegistry (\<lambda>a b. 0)"
  define fs0 where "fs0 = \<lparr>fileContents =
          [''/repo/a.txt'' \<mapsto> ''<<<<<<< HEAD\<newline>a  b\<newline>=======\<newline>a b\<newline>>>>>>>> br\<newline>'',
           ''/repo/b.txt'' \<mapsto> ''<<<<<<< HEAD\<newline>one\<newline>=======\<newline>two\<newline>>>>>>>> br\<newline>''],
        writable = (\<lambda>p. True), stagedFiles = []\<rparr>"
  define a where "a = analyzeFileConflict ''a.txt''
          ''<<<<<<< HEAD\<newline>a  b\<newline>=======\<newline>a b\<newline>>>>>>>> br\<newline>''"
  define b where "b = analyzeFileConflict ''b.txt''
          ''<<<<<<< HEAD\<newline>one\<newline>=======\<newline>two\<newline>>>>>>>> br\<newline>''"
  define g where "g = analyzeFileConflict ''gone.txt''
          ''<<<<<<< HEAD\<newline>one\<newline>=======\<newline>two\<newline>>>>>>>> br\<newline>''"
  define run where "run = (\<lambda>cs. autoResolveConflicts ''/repo'' reg fs0 cs True Incoming)"
  have view: "getConflictResolutionPlugins reg
      = [whitespacePlugin, importPlugin (\<lambda>a b. 0), simpleContentPlugin]"
    by (simp add: reg_def getConflictResolutionPlugins_def builtinRegistry_def builtinPlugins_def
        registerConflictResolutionPlugin_def arraySort_def priorityOrDefault_def
        whitespacePlugin_def importPlugin_def simpleContentPlugin_def)
  have fs: "snd (run cs) = fs0" for cs
    by (simp add: run_def autoResolveConflicts_dry_fs)
  have r0: "fst (run []) = emptyResult"
    by (simp add: run_def autoResolveConflicts_Nil)
  have names: "conflictFile a = ''a.txt''" "conflictFile b = ''b.txt''" "conflictFile g = ''gone.txt''"
    unfolding a_def b_def g_def by code_simp+
  have types: "conflictType a = WHITESPACE" "conflictType b = CONTENT" "conflictType g = CONTENT"
    unfolding a_def b_def g_def by code_simp+
  have nsup: "\<not> simpleContentSupports b" "\<not> simpleContentSupports g"
    unfolding b_def g_def by code_simp+
  have resA: "resolve whitespacePlugin a (createContext ''/repo'' fs0)
              = Inr (Some \<lparr>resolutionContent = ''a b\<newline>'',
                           resolutionNotes = Some [''Normalized whitespace differences'']\<rparr>)"
    unfolding a_def fs0_def by code_simp
  have runA: "runPlugins a (getConflictResolutionPlugins reg) (createContext ''/repo'' fs0)
              = Inr (Some \<lparr>outcomeContent = ''a b\<newline>'', outcomePlugin = whitespacePlugin,
                           outcomeNotes = Some [''Normalized whitespace differences'']\<rparr>)"
    unfolding view using types(1) resA by (simp add: whitespacePlugin_def)
  have runB: "runPlugins b (getConflictResolutionPlugins reg) (createContext ''/repo'' fs0) = Inr None"
    unfolding view using types(2) nsup(1)
    by (simp add: whitespacePlugin_def importPlugin_def simpleContentPlugin_def)
  have runG: "runPlugins g (getConflictResolutionPlugins reg) (createContext ''/repo'' fs0) = Inr None"
    unfolding view using types(3) nsup(2)
    by (simp add: whitespacePlugin_def importPlugin_def simpleContentPlugin_def)
  have fbB: "applyFallbackStrategy ''/repo'' fs0 b Incoming = Inr (Some ''two\<newline>'')"
    unfolding b_def fs0_def by code_simp
  have fbG: "applyFallbackStrategy ''/repo'' fs0 g Incoming = Inl (ENOENT ''/repo/gone.txt'')"
    unfolding g_def fs0_def by code_simp
  note thmA = autoResolveConflicts_fallback_distinguishable
    [where repo = "''/repo''" and registry = reg and fs = fs0 and earlier = "[]" and conflict = a
       and later = "[b, g]" and dryRun = True and fallback = Incoming]
  note thmB = autoResolveConflicts_fallback_distinguishable
    [where repo = "''/repo''" and registry = reg and fs = fs0 and earlier = "[a]" and conflict = b
       and later = "[g]" and dryRun = True and fallback = Incoming]
  note thmG = autoResolveConflicts_fallback_distinguishable
    [where repo = "''/repo''" and registry = reg and fs = fs0 and earlier = "[a, b]" and conflict = g
       and later = "[]" and dryRun = True and fallback = Incoming]
  have A: "resolvedBy (fst (run [a])) = [\<lparr>resolvedFile = ''a.txt'', resolvedPlugin = ''whitespace-normalizer'',
         resolvedNotes = Some [''Normalized whitespace differences'']\<rparr>]
         \<and> resolvedFiles (fst (run [a])) = [''a.txt'']
         \<and> fallbackApplied (fst (run [a])) = []
         \<and> warnings (fst (run [a])) = []
         \<and> failedFiles (fst (run [a])) = []"
    using thmA [THEN conjunct1, rule_format, of _ fs0] runA fs [of "[]"] r0
    by (simp add: run_def writeResolvedFile_dry names emptyResult_def whitespacePlugin_def)
  have B: "fallbackApplied (fst (run [a, b])) = [(''b.txt'', Incoming)]
         \<and> warnings (fst (run [a, b])) = [''Applied fallback strategy \"incoming\" to b.txt. Review before committing.'']
         \<and> resolvedFiles (fst (run [a, b])) = [''a.txt'', ''b.txt'']
         \<and> resolvedBy (fst (run [a, b])) = [\<lparr>resolvedFile = ''a.txt'', resolvedPlugin = ''whitespace-normalizer'',
         resolvedNotes = Some [''Normalized whitespace differences'']\<rparr>]
         \<and> failedFiles (fst (run [a, b])) = []"
    using thmB [THEN conjunct2, THEN conjunct1, rule_format, of "''two\<newline>''" fs0]
      runB fbB fs [of "[a]"] A
    by (simp add: run_def writeResolvedFile_dry names fallbackWarning_def strategyName_def)
  have G: "failedFiles (fst (run [a, b, g])) = [''gone.txt'']
         \<and> resolvedFiles (fst (run [a, b, g])) = [''a.txt'', ''b.txt'']"
    using thmG [THEN conjunct2, THEN conjunct2, THEN conjunct1] runG fbG fs [of "[a, b]"] B
    by (simp add: run_def names)
  from A B G show ?thesis unfolding run_def reg_def fs0_def a_def b_def g_def by simp
qed

text \<open>
  A dry run writes nothing, so it leaves the file system as it is.  A run that writes
  gives the same result as the dry run when what is written does not matter to the
  conflicts that follow and every write succeeds.
\<close>

lemma runPlugins_same_context:
  assumes "\<forall>p \<in> set plugins. resolve p conflict ctx = resolve p conflict ctx'"
  shows "runPlugins conflict plugins ctx = runPlugins conflict plugins ctx'"
  using assms by (induction plugins) (simp_all split: sum.splits option.splits)

lemma applyFallbackStrategy_same_file:
  "fileContents fs (pathJoin repo (conflictFile conflict))
   = fileContents fs' (pathJoin repo (conflictFile conflict)) \<Longrightarrow>
   applyFallbackStrategy repo fs conflict strategy = applyFallbackStrategy repo fs' conflict strategy"
  by (simp add: applyFallbackStrategy_def resolverReadFile_def fsReadFile_def)

lemma writeResolvedFile_real:
  "writable fs (pathJoin repo path) \<Longrightarrow>
   writeResolvedFile repo False fs path text
   = Inr (fs\<lparr>fileContents := (fileContents fs)(pathJoin repo path \<mapsto> text)\<rparr>)"
  by (simp add: writeResolvedFile_def fsWriteFile_def)

lemma resolveConflict_real_like_dry:
  assumes run: "runPlugins conflict plugins (createContext repo fsN)
                = runPlugins conflict plugins (createContext repo fsD)"
    and same: "fileContents fsN (pathJoin repo (conflictFile conflict))
               = fileContents fsD (pathJoin repo (conflictFile conflict))"
    and w: "writable fsN (pathJoin repo (conflictFile conflict))"
  shows "\<exists>res' fsN'.
           resolveConflict repo plugins False fallbackStrategy (res, fsN) conflict = (res', fsN')
         \<and> resolveConflict repo plugins True fallbackStrategy (res, fsD) conflict = (res', fsD)
         \<and> writable fsN' = writable fsN
         \<and> (\<forall>path. path \<noteq> pathJoin repo (conflictFile conflict) \<longrightarrow>
                fileContents fsN' path = fileContents fsN path)"
proof (cases "runPlugins conflict plugins (createContext repo fsD)")
  case (Inl e)
  with run show ?thesis by (simp add: resolveConflict_plugin_throws)
next
  case (Inr r)
  show ?thesis
  proof (cases r)
    case (Some out)
    with Inr run show ?thesis
      by (simp add: resolveConflict_def tryResolve_plugin_resolves writeResolvedFile_dry
          writeResolvedFile_real [OF w])
  next
    case None
    with Inr run
    have rD: "runPlugins conflict plugins (createContext repo fsD) = Inr None"
      and rN: "runPlugins conflict plugins (createContext repo fsN) = Inr None" by simp_all
    show ?thesis
    proof (cases fallbackStrategy)
      case None
      with rD rN show ?thesis by (simp add: resolveConflict_def tryResolve_no_fallback)
    next
      case (Some strategy)
      have f: "applyFallbackStrategy repo fsN conflict strategy
               = applyFallbackStrategy repo fsD conflict strategy"
        using same by (rule applyFallbackStrategy_same_file)
      show ?thesis
      proof (cases "applyFallbackStrategy repo fsD conflict strategy")
        case (Inl e)
        with rD rN Some f show ?thesis by (simp add: resolveConflict_def tryResolve_fallback)
      next
        case (Inr fc)
        show ?thesis
        proof (cases fc)
          case None
          with rD rN Some f Inr show ?thesis
            by (simp add: resolveConflict_def tryResolve_fallback)
        next
          case fcSome: (Some fallbackContent)
          with rD rN Some f Inr show ?thesis
            by (simp add: resolveConflict_def tryResolve_fallback writeResolvedFile_dry
                writeResolvedFile_real [OF w])
        qed
      qed
    qed
  qed
qed

lemma foldl_resolveConflict_real_like_dry:
  assumes local: "\<forall>p \<in> set plugins. \<forall>c ctx ctx'.
        repoPath ctx = repoPath ctx' \<and> readFile ctx (conflictFile c) = readFile ctx' (conflictFile c)
        \<longrightarrow> resolve p c ctx = resolve p c ctx'"
    and "distinct (map (\<lambda>c. pathJoin repo (conflictFile c)) conflicts)"
    and "\<forall>c \<in> set conflicts. writable fsN (pathJoin repo (conflictFile c))"
    and "\<forall>c \<in> set conflicts. fileContents fsN (pathJoin repo (conflictFile c))
                               = fileContents fsD (pathJoin repo (conflictFile c))"
  shows "fst (foldl (resolveConflict repo plugins False fallbackStrategy) (res, fsN) conflicts)
         = fst (foldl (resolveConflict repo plugins True fallbackStrategy) (res, fsD) conflicts)"
  using assms(2-4)
proof (induction conflicts arbitrary: res fsN)
  case Nil
  show ?case by simp
next
  case (Cons c cs)
  have same: "fileContents fsN (pathJoin repo (conflictFile c))
              = fileContents fsD (pathJoin repo (conflictFile c))"
    and w: "writable fsN (pathJoin repo (conflictFile c))"
    using Cons.prems by simp_all
  have "readFile (createContext repo fsN) (conflictFile c)
        = readFile (createContext repo fsD) (conflictFile c)"
    using same by (simp add: createContext_def resolverReadFile_def fsReadFile_def)
  then have "\<forall>p \<in> set plugins.
      resolve p c (createContext repo fsN) = resolve p c (createContext repo fsD)"
    using local by (simp add: createContext_def)
  then have run: "runPlugins c plugins (createContext repo fsN)
                = runPlugins c plugins (createContext repo fsD)"
    by (rule runPlugins_same_context)
  from resolveConflict_real_like_dry [OF run same w, of fallbackStrategy res]
  obtain res' fsN' where
    n: "resolveConflict repo plugins False fallbackStrategy (res, fsN) c = (res', fsN')"
    and d: "resolveConflict repo plugins True fallbackStrategy (res, fsD) c = (res', fsD)"
    and w': "writable fsN' = writable fsN"
    and frame: "\<forall>path. path \<noteq> pathJoin repo (conflictFile c)
                  \<longrightarrow> fileContents fsN' path = fileContents fsN path"
    by blast
  have "fst (foldl (resolveConflict repo plugins False fallbackStrategy) (res', fsN') cs)
        = fst (foldl (resolveConflict repo plugins True fallbackStrategy) (res', fsD) cs)"
  proof (rule Cons.IH)
    show "distinct (map (\<lambda>c. pathJoin repo (conflictFile c)) cs)" using Cons.prems(1) by simp
    show "\<forall>c \<in> set cs. writable fsN' (pathJoin repo (conflictFile c))"
      using Cons.prems(2) w' by simp
    show "\<forall>c' \<in> set cs. fileContents fsN' (pathJoin repo (conflictFile c'))
                          = fileContents fsD (pathJoin repo (conflictFile c'))"
    proof
      fix c' assume c': "c' \<in> set cs"
      with Cons.prems(1) have "pathJoin repo (conflictFile c') \<noteq> pathJoin repo (conflictFile c)"
        by (auto simp: image_iff)
      with frame Cons.prems(3) c'
      show "fileContents fsN' (pathJoin repo (conflictFile c'))
            = fileContents fsD (pathJoin repo (conflictFile c'))"
        by simp
    qed
  qed
  with n d show ?case by simp
qed

lemma getConflictResolutionPlugins_set:
  "set (getConflictResolutionPlugins registry) = set (map snd registry)"
  unfolding getConflictResolutionPlugins_def
  by (rule mset_eq_setD) (rule arraySort_by_key)

lemma builtinPlugins_read_own_file:
  assumes "p \<in> set (builtinPlugins localeCompare)"
    and "readFile ctx (conflictFile c) = readFile ctx' (conflictFile c)"
  shows "resolve p c ctx = resolve p c ctx'"
  using assms
  by (auto simp: builtinPlugins_def whitespacePlugin_def importPlugin_def simpleContentPlugin_def
      replaceConflictBlocks_def)

lemma builtinRegistry_plugins: "map snd (builtinRegistry localeCompare) = builtinPlugins localeCompare"
  by (simp add: builtinRegistry_def builtinPlugins_def registerConflictResolutionPlugin_def
      whitespacePlugin_def importPlugin_def simpleContentPlugin_def)

text \<open>
  C7 (as the code has it).  A run with \<^verbatim>\<open>dryRun = true\<close> leaves the working tree, the
  write permissions and the index as they are: it writes no file, and
  \<^verbatim>\<open>autoResolveConflicts\<close> never stages.  Its result, \<^verbatim>\<open>resolvedFiles\<close> included, is
  that of the run with \<^verbatim>\<open>dryRun = false\<close> from the same state when the conflicts name
  distinct files (their paths joined to the repository's differ), every conflicted file
  can be written, and the outcome of every registered plugin depends on no file but the
  conflict's own.
\<close>

theorem autoResolveConflicts_dry_run:
  "snd (autoResolveConflicts repo registry fs conflicts True fallback) = fs
   \<and> (distinct (map (\<lambda>c. pathJoin repo (conflictFile c)) conflicts)
      \<and> (\<forall>c \<in> set conflicts. writable fs (pathJoin repo (conflictFile c)))
      \<and> (\<forall>p \<in> set (map snd registry). \<forall>c ctx ctx'.
            repoPath ctx = repoPath ctx'
            \<and> readFile ctx (conflictFile c) = readFile ctx' (conflictFile c)
            \<longrightarrow> resolve p c ctx = resolve p c ctx')
      \<longrightarrow> fst (autoResolveConflicts repo registry fs conflicts True fallback)
          = fst (autoResolveConflicts repo registry fs conflicts False fallback))"
proof -
  have frame: "snd (autoResolveConflicts repo registry fs conflicts True fallback) = fs"
    by (simp add: autoResolveConflicts_def Let_def emptyResult_def foldl_resolveConflict_dry_fs)
  have same: "fst (autoResolveConflicts repo registry fs conflicts True fallback)
          = fst (autoResolveConflicts repo registry fs conflicts False fallback)"
    if d: "distinct (map (\<lambda>c. pathJoin repo (conflictFile c)) conflicts)"
      and w: "\<forall>c \<in> set conflicts. writable fs (pathJoin repo (conflictFile c))"
      and l: "\<forall>p \<in> set (map snd registry). \<forall>c ctx ctx'.
            repoPath ctx = repoPath ctx'
            \<and> readFile ctx (conflictFile c) = readFile ctx' (conflictFile c)
            \<longrightarrow> resolve p c ctx = resolve p c ctx'"
  proof -
    from l have l': "\<forall>p \<in> set (getConflictResolutionPlugins registry). \<forall>c ctx ctx'.
            repoPath ctx = repoPath ctx'
            \<and> readFile ctx (conflictFile c) = readFile ctx' (conflictFile c)
            \<longrightarrow> resolve p c ctx = resolve p c ctx'"
      by (simp only: getConflictResolutionPlugins_set)
    from foldl_resolveConflict_real_like_dry [OF l' d w, of fs _ emptyResult]
    show ?thesis by (simp add: autoResolveConflicts_def Let_def)
  qed
  from frame same show ?thesis by blast
qed

theorem autoResolveConflicts_dry_run_witness:
  "snd (autoResolveConflicts ''/repo'' (builtinRegistry (\<lambda>a b. 0))
       \<lparr>fileContents =
          [''/repo/a.txt'' \<mapsto> ''<<<<<<< HEAD\<newline>a  b\<newline>=======\<newline>a b\<newline>>>>>>>> br\<newline>'',
           ''/repo/b.txt'' \<mapsto> ''<<<<<<< HEAD\<newline>one\<newline>=======\<newline>two\<newline>>>>>>>> br\<newline>''],
        writable = (\<lambda>p. True), stagedFiles = []\<rparr>
       [analyzeFileConflict ''a.txt''
          ''<<<<<<< HEAD\<newline>a  b\<newline>=======\<newline>a b\<newline>>>>>>>> br\<newline>'',
        analyzeFileConflict ''b.txt''
          ''<<<<<<< HEAD\<newline>one\<newline>=======\<newline>two\<newline>>>>>>>> br\<newline>'']
       True Incoming)
   = \<lparr>fileContents =
          [''/repo/a.txt'' \<mapsto> ''<<<<<<< HEAD\<newline>a  b\<newline>=======\<newline>a b\<newline>>>>>>>> br\<newline>'',
           ''/repo/b.txt'' \<mapsto> ''<<<<<<< HEAD\<newline>one\<newline>=======\<newline>two\<newline>>>>>>>> br\<newline>''],
        writable = (\<lambda>p. True), stagedFiles = []\<rparr>
   \<and> fst (autoResolveConflicts ''/repo'' (builtinRegistry (\<lambda>a b. 0))
       \<lparr>fileContents =
          [''/repo/a.txt'' \<mapsto> ''<<<<<<< HEAD\<newline>a  b\<newline>=======\<newline>a b\<newline>>>>>>>> br\<newline>'',
           ''/repo/b.txt'' \<mapsto> ''<<<<<<< HEAD\<newline>one\<newline>=======\<newline>two\<newline>>>>>>>> br\<newline>''],
        writable = (\<lambda>p. True), stagedFiles = []\<rparr>
       [analyzeFileConflict ''a.txt''
          ''<<<<<<< HEAD\<newline>a  b\<newline>=======\<newline>a b\<newline>>>>>>>> br\<newline>'',
        analyzeFileConflict ''b.txt''
          ''<<<<<<< HEAD\<newline>one\<newline>=======\<newline>two\<newline>>>>>>>> br\<newline>'']
       True Incoming)
   = fst (autoResolveConflicts ''/repo'' (builtinRegistry (\<lambda>a b. 0))
       \<lparr>fileContents =
          [''/repo/a.txt'' \<mapsto> ''<<<<<<< HEAD\<newline>a  b\<newline>=======\<newline>a b\<newline>>>>>>>> br\<newline>'',
           ''/repo/b.txt'' \<mapsto> ''<<<<<<< HEAD\<newline>one\<newline>=======\<newline>two\<newline>>>>>>>> br\<newline>''],
        writable = (\<lambda>p. True), stagedFiles = []\<rparr>
       [analyzeFileConflict ''a.txt''
          ''<<<<<<< HEAD\<newline>a  b\<newline>=======\<newline>a b\<newline>>>>>>>> br\<newline>'',
        analyzeFileConflict ''b.txt''
          ''<<<<<<< HEAD\<newline>one\<newline>=======\<newline>two\<newline>>>>>>>> br\<newline>'']
       False Incoming)"
proof -
  define fs0 where "fs0 = \<lparr>fileContents =
          [''/repo/a.txt'' \<mapsto> ''<<<<<<< HEAD\<newline>a  b\<newline>=======\<newline>a b\<newline>>>>>>>> br\<newline>'',
           ''/repo/b.txt'' \<mapsto> ''<<<<<<< HEAD\<newline>one\<newline>=======\<newline>two\<newline>>>>>>>> br\<newline>''],
        writable = (\<lambda>p. True), stagedFiles = []\<rparr>"
  define cs where "cs = [analyzeFileConflict ''a.txt''
          ''<<<<<<< HEAD\<newline>a  b\<newline>=======\<newline>a b\<newline>>>>>>>> br\<newline>'',
        analyzeFileConflict ''b.txt''
          ''<<<<<<< HEAD\<newline>one\<newline>=======\<newline>two\<newline>>>>>>>> br\<newline>'']"
  have d: "distinct (map (\<lambda>c. pathJoin ''/repo'' (conflictFile c)) cs)"
    unfolding cs_def by code_simp
  have w: "\<forall>c \<in> set cs. writable fs0 (pathJoin ''/repo'' (conflictFile c))"
    by (simp add: fs0_def)
  have l: "\<forall>p \<in> set (map snd (builtinRegistry (\<lambda>a b. 0))). \<forall>c ctx ctx'.
            repoPath ctx = repoPath ctx'
            \<and> readFile ctx (conflictFile c) = readFile ctx' (conflictFile c)
            \<longrightarrow> resolve p c ctx = resolve p c ctx'"
    unfolding builtinRegistry_plugins using builtinPlugins_read_own_file by blast
  from autoResolveConflicts_dry_run [of "''/repo''" "builtinRegistry (\<lambda>a b. 0)" fs0 cs Incoming] d w l
  have "snd (autoResolveConflicts ''/repo'' (builtinRegistry (\<lambda>a b. 0)) fs0 cs True Incoming) = fs0
      \<and> fst (autoResolveConflicts ''/repo'' (builtinRegistry (\<lambda>a b. 0)) fs0 cs True Incoming)
        = fst (autoResolveConflicts ''/repo'' (builtinRegistry (\<lambda>a b. 0)) fs0 cs False Incoming)"
    by blast
  then show ?thesis unfolding fs0_def cs_def .
qed

text \<open>
  The claim as written fails on "exactly as a non-dry run would": for a conflicted file
  that cannot be written, the dry run lists the file in \<^verbatim>\<open>resolvedFiles\<close>, and the run
  that writes lists it in \<^verbatim>\<open>failedFiles\<close>.
\<close>

theorem autoResolveConflicts_dry_run_counterexample:
  "resolvedFiles (fst (autoResolveConflicts ''/repo'' (builtinRegistry (\<lambda>a b. 0))
       \<lparr>fileContents = [''/repo/a.txt'' \<mapsto> ''<<<<<<< HEAD\<newline>a  b\<newline>=======\<newline>a b\<newline>>>>>>>> br\<newline>''],
        writable = (\<lambda>p. False), stagedFiles = []\<rparr>
       [analyzeFileConflict ''a.txt''
          ''<<<<<<< HEAD\<newline>a  b\<newline>=======\<newline>a b\<newline>>>>>>>> br\<newline>'']
       True Incoming))
   = [''a.txt'']
   \<and> resolvedFiles (fst (autoResolveConflicts ''/repo'' (builtinRegistry (\<lambda>a b. 0))
       \<lparr>fileContents = [''/repo/a.txt'' \<mapsto> ''<<<<<<< HEAD\<newline>a  b\<newline>=======\<newline>a b\<newline>>>>>>>> br\<newline>''],
        writable = (\<lambda>p. False), stagedFiles = []\<rparr>
       [analyzeFileConflict ''a.txt''
          ''<<<<<<< HEAD\<newline>a  b\<newline>=======\<newline>a b\<newline>>>>>>>> br\<newline>'']
       False Incoming))
   = []
   \<and> failedFiles (fst (autoResolveConflicts ''/repo'' (builtinRegistry (\<lambda>a b. 0))
       \<lparr>fileContents = [''/repo/a.txt'' \<mapsto> ''<<<<<<< HEAD\<newline>a  b\<newline>=======\<newline>a b\<newline>>>>>>>> br\<newline>''],
        writable = (\<lambda>p. False), stagedFiles = []\<rparr>
       [analyzeFileConflict ''a.txt''
          ''<<<<<<< HEAD\<newline>a  b\<newline>=======\<newline>a b\<newline>>>>>>>> br\<newline>'']
       False Incoming))
   = [''a.txt'']"
  by code_simp

text \<open>
  The other two conditions matter as well.  Below, a registered plugin looks at the file
  \<^verbatim>\<open>a.txt\<close> whatever the conflict: the dry run resolves both conflicts with it, and the run
  that writes resolves the first, rewrites \<^verbatim>\<open>a.txt\<close>, and then finds the plugin declining
  the second.
\<close>

lemma autoResolveConflicts_dry_run_other_file:
  "resolvedFiles (fst (autoResolveConflicts ''/repo''
       (registerConflictResolutionPlugin (builtinRegistry (\<lambda>a b. 0))
          \<lparr>pluginName = ''peek'', priority = None, supports = (\<lambda>c. True),
           resolve = (\<lambda>c ctx.
             case readFile ctx ''a.txt'' of
               Inl e \<Rightarrow> Inl e
             | Inr t \<Rightarrow>
                 if startsWith t ''<<<<<<<''
                 then Inr (Some \<lparr>resolutionContent = ''merged'', resolutionNotes = None\<rparr>)
                 else Inr None)\<rparr>)
       \<lparr>fileContents =
          [''/repo/a.txt'' \<mapsto> ''<<<<<<< HEAD\<newline>one\<newline>=======\<newline>two\<newline>>>>>>>> br'',
           ''/repo/b.txt'' \<mapsto> ''<<<<<<< HEAD\<newline>red\<newline>=======\<newline>blue\<newline>>>>>>>> br''],
        writable = (\<lambda>p. True), stagedFiles = []\<rparr>
       [analyzeFileConflict ''a.txt''
          ''<<<<<<< HEAD\<newline>one\<newline>=======\<newline>two\<newline>>>>>>>> br'',
        analyzeFileConflict ''b.txt''
          ''<<<<<<< HEAD\<newline>red\<newline>=======\<newline>blue\<newline>>>>>>>> br'']
       True NoFallback))
   = [''a.txt'', ''b.txt'']
   \<and> resolvedFiles (fst (autoResolveConflicts ''/repo''
       (registerConflictResolutionPlugin (builtinRegistry (\<lambda>a b. 0))
          \<lparr>pluginName = ''peek'', priority = None, supports = (\<lambda>c. True),
           resolve = (\<lambda>c ctx.
             case readFile ctx ''a.txt'' of
               Inl e \<Rightarrow> Inl e
             | Inr t \<Rightarrow>
                 if startsWith t ''<<<<<<<''
                 then Inr (Some \<lparr>resolutionContent = ''merged'', resolutionNotes = None\<rparr>)
                 else Inr None)\<rparr>)
       \<lparr>fileContents =
          [''/repo/a.txt'' \<mapsto> ''<<<<<<< HEAD\<newline>one\<newline>=======\<newline>two\<newline>>>>>>>> br'',
           ''/repo/b.txt'' \<mapsto> ''<<<<<<< HEAD\<newline>red\<newline>=======\<newline>blue\<newline>>>>>>>> br''],
        writable = (\<lambda>p. True), stagedFiles = []\<rparr>
       [analyzeFileConflict ''a.txt''
          ''<<<<<<< HEAD\<newline>one\<newline>=======\<newline>two\<newline>>>>>>>> br'',
        analyzeFileConflict ''b.txt''
          ''<<<<<<< HEAD\<newline>red\<newline>=======\<newline>blue\<newline>>>>>>>> br'']
       False NoFallback))
   = [''a.txt'']"
  by code_simp

section \<open>The falsy empty string\<close>

text \<open>
  Under a strategy other than \<^verbatim>\<open>none\<close> the fallback does return a string whenever the
  conflict's file can be read.
\<close>

lemma fallbackLoop_returns:
  "strategy \<noteq> NoFallback \<Longrightarrow> \<exists>t. fallbackLoop strategy hs t0 = Some t"
  by (induction hs arbitrary: t0) (auto split: FallbackStrategy.splits)

lemma applyFallbackStrategy_returns:
  assumes "strategy \<noteq> NoFallback"
    and "resolverReadFile repo fs (conflictFile conflict) = Inr t0"
  shows "\<exists>t. applyFallbackStrategy repo fs conflict strategy = Inr (Some t)"
  using assms fallbackLoop_returns [of strategy "hunks conflict" t0]
  by (simp add: applyFallbackStrategy_def)

text \<open>
  C10 (code defect).  With a fallback strategy other than \<^verbatim>\<open>none\<close> the branch
  "No automated strategy matched" should be out of reach.  It is reached when the
  resolved text is the empty string, which \<^verbatim>\<open>if (fallbackContent)\<close> takes for a miss.
  The file below is one conflict region with an empty current side and nothing after the
  end marker; its type is STRUCTURAL, which no builtin plugin supports.  Under the strategy
  \<^verbatim>\<open>current\<close> the fallback returns the empty string, and the file is reported as failed
  although nothing was thrown.
\<close>

theorem autoResolveConflicts_empty_fallback_content:
  "applyFallbackStrategy ''/repo''
     \<lparr>fileContents = [''/repo/a.ts'' \<mapsto> ''<<<<<<< HEAD\<newline>=======\<newline>class A {}\<newline>>>>>>>> b''],
      writable = (\<lambda>p. True), stagedFiles = []\<rparr>
     (analyzeFileConflict ''a.ts''
        ''<<<<<<< HEAD\<newline>=======\<newline>class A {}\<newline>>>>>>>> b'')
     Current
   = Inr (Some [])
   \<and> fst (autoResolveConflicts ''/repo'' (builtinRegistry localeCompare)
          \<lparr>fileContents = [''/repo/a.ts'' \<mapsto> ''<<<<<<< HEAD\<newline>=======\<newline>class A {}\<newline>>>>>>>> b''],
           writable = (\<lambda>p. True), stagedFiles = []\<rparr>
          [analyzeFileConflict ''a.ts''
             ''<<<<<<< HEAD\<newline>=======\<newline>class A {}\<newline>>>>>>>> b'']
          False Current)
     = \<lparr>success = False, resolvedFiles = [], failedFiles = [''a.ts''],
        errors = [''No automated strategy matched a.ts.''],
        fallbackApplied = [], warnings = [], resultNotes = [], resolvedBy = []\<rparr>"
  by code_simp

end
